theory Spec2Isabelle
  imports Complex_Main "HOL-Library.Word" "HOL-Library.AList"
begin

unbundle bit_operations_syntax

section \<open>Python values, exceptions and string primitives\<close>

text \<open>
  The model of \<^verbatim>\<open>main.py\<close>. A Python string is a sequence of code points. The strings
  the program handles as URLs, dictionary keys and record fields have the type
  \<^typ>\<open>string\<close>, one character for each code point, which covers the code points below 256;
  every character the code inspects (\<^verbatim>\<open>. / ? H M S\<close>, digits, the id alphabet) is ASCII.
  \<^verbatim>\<open>hash_str\<close> takes the list of code points itself, so that \<^verbatim>\<open>str.encode()\<close> and its
  failure belong to the model. An exception is a value of \<open>error\<close>; a function that may raise
  returns \<open>error + 'a\<close>.
\<close>

datatype error =
  KeyError | IndexError | ValueError | TypeError | AttributeError | RecursionError
  | UnicodeEncodeError | DownloadError | HttpError

text \<open>The values found in a provider record. A float is kept as the exact rational it denotes.\<close>

datatype pyval = PNone | PStr string | PInt int | PFloat rat

type_synonym raw = "string \<rightharpoonup> pyval"

definition dict_get :: "raw \<Rightarrow> string \<Rightarrow> pyval" where
  \<comment> \<open>\<^verbatim>\<open>d.get(k)\<close>\<close>
  "dict_get d k = (case d k of None \<Rightarrow> PNone | Some v \<Rightarrow> v)"

definition list_get :: "'a list \<Rightarrow> int \<Rightarrow> error + 'a" where
  \<comment> \<open>\<^verbatim>\<open>xs[i]\<close>: a negative index counts from the end, out of range raises\<close>
  "list_get xs i =
     (if 0 \<le> i \<and> i < int (length xs) then Inr (xs ! nat i)
      else if i < 0 \<and> - i \<le> int (length xs) then Inr (xs ! nat (int (length xs) + i))
      else Inl IndexError)"

fun split_chr :: "char \<Rightarrow> string \<Rightarrow> string list" where
  \<comment> \<open>\<^verbatim>\<open>s.split(c)\<close> for a one-character separator\<close>
  "split_chr c [] = [[]]"
| "split_chr c (x # xs) =
     (if x = c then [] # split_chr c xs
      else (case split_chr c xs of [] \<Rightarrow> [[x]] | w # ws \<Rightarrow> (x # w) # ws))"

definition split_max1 :: "char \<Rightarrow> string \<Rightarrow> string list" where
  \<comment> \<open>\<^verbatim>\<open>s.split(c, 1)\<close>\<close>
  "split_max1 c s =
     (if c \<in> set s then [takeWhile (\<lambda>x. x \<noteq> c) s, drop 1 (dropWhile (\<lambda>x. x \<noteq> c) s)] else [s])"

definition py_find :: "char \<Rightarrow> string \<Rightarrow> int" where
  "py_find c s = (if c \<in> set s then int (length (takeWhile (\<lambda>x. x \<noteq> c) s)) else - 1)"

definition py_rfind :: "char \<Rightarrow> string \<Rightarrow> int" where
  "py_rfind c s =
     (if c \<in> set s then int (length s) - 1 - int (length (takeWhile (\<lambda>x. x \<noteq> c) (rev s)))
      else - 1)"

definition slice_to :: "string \<Rightarrow> int \<Rightarrow> string" where
  \<comment> \<open>\<^verbatim>\<open>s[0:i]\<close>\<close>
  "slice_to s i = (if i < 0 then take (nat (int (length s) + i)) s else take (nat i) s)"

definition slice_from :: "string \<Rightarrow> int \<Rightarrow> string" where
  \<comment> \<open>\<^verbatim>\<open>s[i:]\<close>\<close>
  "slice_from s i = (if i < 0 then drop (nat (int (length s) + i)) s else drop (nat i) s)"

definition startswith :: "string \<Rightarrow> string \<Rightarrow> bool" where
  "startswith s p = (take (length p) s = p)"

definition endswith :: "string \<Rightarrow> string \<Rightarrow> bool" where
  "endswith s p = (length p \<le> length s \<and> drop (length s - length p) s = p)"

definition rstrip_chr :: "char \<Rightarrow> string \<Rightarrow> string" where
  "rstrip_chr c s = rev (dropWhile (\<lambda>x. x = c) (rev s))"

subsection \<open>\<^verbatim>\<open>int(str)\<close> and \<^verbatim>\<open>str(int)\<close>\<close>

definition is_space :: "char \<Rightarrow> bool" where
  \<comment> \<open>what \<^verbatim>\<open>int()\<close> skips around a literal: the blank, the five controls \<^verbatim>\<open>0x09\<close> to
      \<^verbatim>\<open>0x0D\<close>, and the two whitespace code points from 128 to 255, \<^verbatim>\<open>0x85\<close> and
      \<^verbatim>\<open>0xA0\<close>; the separators \<^verbatim>\<open>0x1C\<close> to \<^verbatim>\<open>0x1F\<close> are not skipped\<close>
  "is_space c =
     (c \<in> set [CHR '' '', CHR 0x09, CHR 0x0A, CHR 0x0B, CHR 0x0C, CHR 0x0D, CHR 0x85, CHR 0xA0])"

definition is_digit :: "char \<Rightarrow> bool" where
  "is_digit c = (c \<in> set ''0123456789'')"

definition digit_val :: "char \<Rightarrow> nat" where
  "digit_val c = of_char c - 48"

definition dec_val :: "string \<Rightarrow> nat" where
  "dec_val ds = foldl (\<lambda>a c. 10 * a + digit_val c) 0 ds"

fun int_digits :: "string \<Rightarrow> string option" where
  \<comment> \<open>the digits of a decimal literal, single underscores between digits removed\<close>
  "int_digits [] = None"
| "int_digits [c] = (if is_digit c then Some [c] else None)"
| "int_digits (c # d # cs) =
     (if is_digit c
      then (if d = CHR ''_'' then map_option ((#) c) (int_digits cs)
            else map_option ((#) c) (int_digits (d # cs)))
      else None)"

definition int_max_str_digits :: nat where
  "int_max_str_digits = 4300"

definition py_int :: "string \<Rightarrow> error + int" where
  \<comment> \<open>\<^verbatim>\<open>int(s)\<close> in base 10: surrounding whitespace, an optional sign, digits with single
      underscores between them, at most \<open>int_max_str_digits\<close> digits; below code point 256 the
      only decimal digits are \<^verbatim>\<open>0\<close> to \<^verbatim>\<open>9\<close>\<close>
  "py_int s =
     (let t = rev (dropWhile is_space (rev (dropWhile is_space s)));
          neg = (take 1 t = ''-'');
          body = (if take 1 t = ''-'' \<or> take 1 t = ''+'' then drop 1 t else t)
      in case int_digits body of
           None \<Rightarrow> Inl ValueError
         | Some ds \<Rightarrow>
             if int_max_str_digits < length ds then Inl ValueError
             else Inr (if neg then - int (dec_val ds) else int (dec_val ds)))"

function show_nat :: "nat \<Rightarrow> string" where
  "show_nat n =
     (if n < 10 then [char_of (48 + n)] else show_nat (n div 10) @ [char_of (48 + n mod 10)])"
  by pat_completeness auto
termination
  by (relation "measure id") auto

declare show_nat.simps [simp del]

definition show_int :: "int \<Rightarrow> string" where
  "show_int i = (if i < 0 then CHR ''-'' # show_nat (nat (- i)) else show_nat (nat i))"

definition py_str :: "(rat \<Rightarrow> string) \<Rightarrow> pyval \<Rightarrow> string" where
  \<comment> \<open>\<^verbatim>\<open>str(v)\<close>, as an f-string formats a value; the rendering of a float is a parameter\<close>
  "py_str fstr v =
     (case v of PNone \<Rightarrow> ''None'' | PStr s \<Rightarrow> s | PInt i \<Rightarrow> show_int i | PFloat q \<Rightarrow> fstr q)"

definition int_of_float :: "rat \<Rightarrow> int" where
  \<comment> \<open>\<^verbatim>\<open>int(x)\<close> of a float: truncation towards zero\<close>
  "int_of_float x = (if 0 \<le> x then \<lfloor>x\<rfloor> else \<lceil>x\<rceil>)"

section \<open>\<^verbatim>\<open>hash_str\<close>: SHA-256 and its hexadecimal digest\<close>

text \<open>
  \<^verbatim>\<open>hashlib.sha256\<close> as FIPS 180-4 defines it, over 32-bit words, on the bytes that
  \<^verbatim>\<open>str.encode()\<close> makes of the string.
\<close>

type_synonym w32 = "32 word"

definition K256_0 :: "w32 list" where
  \<comment> \<open>round constants 0 to 7\<close>
  "K256_0 =
     [0x428a2f98, 0x71374491, 0xb5c0fbcf, 0xe9b5dba5,
      0x3956c25b, 0x59f111f1, 0x923f82a4, 0xab1c5ed5]"

definition K256_1 :: "w32 list" where
  \<comment> \<open>round constants 8 to 15\<close>
  "K256_1 =
     [0xd807aa98, 0x12835b01, 0x243185be, 0x550c7dc3,
      0x72be5d74, 0x80deb1fe, 0x9bdc06a7, 0xc19bf174]"

definition K256_2 :: "w32 list" where
  \<comment> \<open>round constants 16 to 23\<close>
  "K256_2 =
     [0xe49b69c1, 0xefbe4786, 0x0fc19dc6, 0x240ca1cc,
      0x2de92c6f, 0x4a7484aa, 0x5cb0a9dc, 0x76f988da]"

definition K256_3 :: "w32 list" where
  \<comment> \<open>round constants 24 to 31\<close>
  "K256_3 =
     [0x983e5152, 0xa831c66d, 0xb00327c8, 0xbf597fc7,
      0xc6e00bf3, 0xd5a79147, 0x06ca6351, 0x14292967]"

definition K256_4 :: "w32 list" where
  \<comment> \<open>round constants 32 to 39\<close>
  "K256_4 =
     [0x27b70a85, 0x2e1b2138, 0x4d2c6dfc, 0x53380d13,
      0x650a7354, 0x766a0abb, 0x81c2c92e, 0x92722c85]"

definition K256_5 :: "w32 list" where
  \<comment> \<open>round constants 40 to 47\<close>
  "K256_5 =
     [0xa2bfe8a1, 0xa81a664b, 0xc24b8b70, 0xc76c51a3,
      0xd192e819, 0xd6990624, 0xf40e3585, 0x106aa070]"

definition K256_6 :: "w32 list" where
  \<comment> \<open>round constants 48 to 55\<close>
  "K256_6 =
     [0x19a4c116, 0x1e376c08, 0x2748774c, 0x34b0bcb5,
      0x391c0cb3, 0x4ed8aa4a, 0x5b9cca4f, 0x682e6ff3]"

definition K256_7 :: "w32 list" where
  \<comment> \<open>round constants 56 to 63\<close>
  "K256_7 =
     [0x748f82ee, 0x78a5636f, 0x84c87814, 0x8cc70208,
      0x90befffa, 0xa4506ceb, 0xbef9a3f7, 0xc67178f2]"

definition K256 :: "w32 list" where
  "K256 = K256_0 @ K256_1 @ K256_2 @ K256_3 @ K256_4 @ K256_5 @ K256_6 @ K256_7"

type_synonym hstate = "w32 \<times> w32 \<times> w32 \<times> w32 \<times> w32 \<times> w32 \<times> w32 \<times> w32"

definition H256 :: hstate where
  "H256 = (0x6a09e667, 0xbb67ae85, 0x3c6ef372, 0xa54ff53a,
           0x510e527f, 0x9b05688c, 0x1f83d9ab, 0x5be0cd19)"

definition Ch :: "w32 \<Rightarrow> w32 \<Rightarrow> w32 \<Rightarrow> w32" where
  "Ch x y z = (x AND y) XOR (NOT x AND z)"

definition Maj :: "w32 \<Rightarrow> w32 \<Rightarrow> w32 \<Rightarrow> w32" where
  "Maj x y z = (x AND y) XOR (x AND z) XOR (y AND z)"

definition Sigma0 :: "w32 \<Rightarrow> w32" where
  "Sigma0 x = word_rotr 2 x XOR word_rotr 13 x XOR word_rotr 22 x"

definition Sigma1 :: "w32 \<Rightarrow> w32" where
  "Sigma1 x = word_rotr 6 x XOR word_rotr 11 x XOR word_rotr 25 x"

definition sigma0 :: "w32 \<Rightarrow> w32" where
  "sigma0 x = word_rotr 7 x XOR word_rotr 18 x XOR drop_bit 3 x"

definition sigma1 :: "w32 \<Rightarrow> w32" where
  "sigma1 x = word_rotr 17 x XOR word_rotr 19 x XOR drop_bit 10 x"

definition be_bytes :: "64 word \<Rightarrow> 8 word list" where
  "be_bytes n = map (\<lambda>i. ucast (drop_bit (8 * i) n)) [7, 6, 5, 4, 3, 2, 1, 0]"

definition sha_pad :: "8 word list \<Rightarrow> 8 word list" where
  \<comment> \<open>0x80, zero bytes up to 56 modulo 64, then the bit length as eight big-endian bytes\<close>
  "sha_pad m =
     m @ [0x80] @ replicate ((119 - length m mod 64) mod 64) 0 @ be_bytes (of_nat (8 * length m))"

definition be_word :: "8 word list \<Rightarrow> w32" where
  "be_word bs = foldl (\<lambda>a b. push_bit 8 a OR ucast b) 0 bs"

function blocks :: "nat \<Rightarrow> 'a list \<Rightarrow> 'a list list" where
  "blocks n xs = (if n = 0 \<or> xs = [] then [] else take n xs # blocks n (drop n xs))"
  by pat_completeness auto
termination
  by (relation "measure (\<lambda>(n, xs). length xs)") auto

declare blocks.simps [simp del]

fun extend :: "nat \<Rightarrow> w32 list \<Rightarrow> w32 list" where
  "extend 0 w = w"
| "extend (Suc k) w =
     (let t = length w
      in extend k
           (w @ [sigma1 (w ! (t - 2)) + w ! (t - 7) + sigma0 (w ! (t - 15)) + w ! (t - 16)]))"

definition schedule :: "8 word list \<Rightarrow> w32 list" where
  "schedule block = extend 48 (map be_word (blocks 4 block))"

definition round256 :: "hstate \<Rightarrow> w32 \<times> w32 \<Rightarrow> hstate" where
  "round256 = (\<lambda>(a, b, c, d, e, f, g, h) (k, w).
     (let T1 = h + Sigma1 e + Ch e f g + k + w;
          T2 = Sigma0 a + Maj a b c
      in (T1 + T2, a, b, c, d + T1, e, f, g)))"

definition add_state :: "hstate \<Rightarrow> hstate \<Rightarrow> hstate" where
  "add_state = (\<lambda>(a, b, c, d, e, f, g, h) (a', b', c', d', e', f', g', h').
     (a + a', b + b', c + c', d + d', e + e', f + f', g + g', h + h'))"

definition compress :: "hstate \<Rightarrow> 8 word list \<Rightarrow> hstate" where
  "compress H block = add_state H (foldl round256 H (zip K256 (schedule block)))"

definition sha256 :: "8 word list \<Rightarrow> hstate" where
  "sha256 m = foldl compress H256 (blocks 64 (sha_pad m))"

definition hex_digit :: "nat \<Rightarrow> char" where
  "hex_digit n = ''0123456789abcdef'' ! (n mod 16)"

definition hex8 :: "w32 \<Rightarrow> string" where
  "hex8 w = map (\<lambda>i. hex_digit (unat w div 16 ^ i)) [7, 6, 5, 4, 3, 2, 1, 0]"

definition hexdigest :: "hstate \<Rightarrow> string" where
  "hexdigest = (\<lambda>(a, b, c, d, e, f, g, h).
     hex8 a @ hex8 b @ hex8 c @ hex8 d @ hex8 e @ hex8 f @ hex8 g @ hex8 h)"

text \<open>
  \<^verbatim>\<open>str.encode()\<close>: UTF-8 with the strict error handler, on a string given as the list of
  its code points (each below \<^verbatim>\<open>0x110000\<close>). A code point from
  \<^verbatim>\<open>0xD800\<close> to \<^verbatim>\<open>0xDFFF\<close> (a surrogate) has no encoding and raises
  \<^verbatim>\<open>UnicodeEncodeError\<close>; any other code point takes one to four bytes.
\<close>

definition surrogate :: "nat \<Rightarrow> bool" where
  "surrogate c = (0xD800 \<le> c \<and> c \<le> 0xDFFF)"

definition utf8 :: "nat \<Rightarrow> 8 word list" where
  "utf8 c =
     (if c < 0x80 then [of_nat c]
      else if c < 0x800 then [of_nat (0xC0 + c div 64), of_nat (0x80 + c mod 64)]
      else if c < 0x10000
      then [of_nat (0xE0 + c div 4096), of_nat (0x80 + c div 64 mod 64), of_nat (0x80 + c mod 64)]
      else [of_nat (0xF0 + c div 262144), of_nat (0x80 + c div 4096 mod 64),
            of_nat (0x80 + c div 64 mod 64), of_nat (0x80 + c mod 64)])"

definition encode :: "nat list \<Rightarrow> error + 8 word list" where
  "encode s = (if list_ex surrogate s then Inl UnicodeEncodeError else Inr (concat (map utf8 s)))"

definition hash_str :: "nat list \<Rightarrow> error + string" where
  \<comment> \<open>\<^verbatim>\<open>h = hashlib.sha256(); h.update(string.encode()); return h.hexdigest()[:5]\<close>\<close>
  "hash_str string =
     (case encode string of
        Inl err \<Rightarrow> Inl err
      | Inr bytes \<Rightarrow> Inr (take 5 (hexdigest (sha256 bytes))))"

definition hash_str_val :: "pyval \<Rightarrow> error + string" where
  \<comment> \<open>\<^verbatim>\<open>hash_str\<close> on a value that need not be a string: only \<^verbatim>\<open>str\<close> has \<^verbatim>\<open>encode\<close>\<close>
  "hash_str_val v = (case v of PStr s \<Rightarrow> hash_str (map of_char s) | _ \<Rightarrow> Inl AttributeError)"

section \<open>Data model\<close>

record ParseResult =
  scheme :: string
  netloc :: string
  path :: string
  params :: string
  query :: string
  fragment :: string

text \<open>One item of the video API's answer, with the fields \<^verbatim>\<open>fetch_youtube\<close> reads.\<close>

record yt_item =
  snippet_title :: string
  snippet_channelTitle :: string
  snippet_publishedAt :: string
  contentDetails_duration :: string

text \<open>
  What \<^verbatim>\<open>extract_info\<close> returns: a dictionary, and the list under its key
  \<^verbatim>\<open>"entries"\<close> when it has that key.
\<close>

record info =
  info_fields :: raw
  info_entries :: "raw list option"

text \<open>The dictionary both adapters build: always the same four keys.\<close>

record video_data =
  title :: pyval
  uploader :: pyval
  upload_date :: pyval
  duration :: pyval

datatype result = Video video_data | Invalid string

text \<open>
  The libraries and the two providers are parameters of the model: \<^verbatim>\<open>urllib.parse\<close>,
  the video API client, \<^verbatim>\<open>YoutubeDL.extract_info\<close>, \<^verbatim>\<open>datetime\<close> with
  \<^verbatim>\<open>pytz\<close>, and the rendering of a float in an f-string.
\<close>

record env =
  urlparse :: "string \<Rightarrow> error + ParseResult"
  geturl :: "ParseResult \<Rightarrow> string"
  parse_qs :: "string \<Rightarrow> (string \<rightharpoonup> string list)"
  videos_list :: "string \<Rightarrow> error + yt_item list"
  extract_info :: "string \<Rightarrow> error + info"
  fromisoformat_timestamp :: "string \<Rightarrow> error + rat"
  strptime_utc_timestamp :: "string \<Rightarrow> error + rat"
  float_str :: "rat \<Rightarrow> string"

text \<open>
  The module's two global caches, and a log of the calls made to the providers (the log
  is not in the source: it records each \<^verbatim>\<open>request.execute()\<close> and each
  \<^verbatim>\<open>ydl.extract_info\<close>, so that a theorem can count them).
\<close>

datatype call = VideosList string | ExtractInfo string

record state =
  yt_cache :: "string \<rightharpoonup> video_data"
  ytdlp_cache :: "string \<rightharpoonup> (pyval \<rightharpoonup> video_data)"
  calls :: "call list"

definition accepted_domains :: "string list" where
  "accepted_domains =
     [''dailymotion.com'', ''pony.tube'', ''vimeo.com'', ''bilibili.com'', ''thishorsie.rocks'',
      ''tiktok.com'', ''twitter.com'', ''x.com'', ''odysee.com'', ''newgrounds.com'']"

definition youtube_domains :: "string list" where
  "youtube_domains = [''m.youtube.com'', ''www.youtube.com'', ''youtube.com'', ''youtu.be'']"

definition init_state :: state where
  \<comment> \<open>\<^verbatim>\<open>yt_cache = {}\<close>, \<^verbatim>\<open>ytdlp_cache = {domain: {} for domain in accepted_domains}\<close>\<close>
  "init_state =
     \<lparr>yt_cache = Map.empty,
      ytdlp_cache = map_of (map (\<lambda>domain. (domain, Map.empty)) accepted_domains),
      calls = []\<rparr>"

section \<open>\<^verbatim>\<open>extract_video_id\<close>\<close>

definition id_char :: "char \<Rightarrow> bool" where
  \<comment> \<open>the class \<^verbatim>\<open>[a-zA-Z0-9_-]\<close>\<close>
  "id_char c =
     (c \<in> set ''abcdefghijklmnopqrstuvwxyzABCDEFGHIJKLMNOPQRSTUVWXYZ0123456789_-'')"

definition re_match_id :: "string \<Rightarrow> string \<Rightarrow> string option" where
  \<comment> \<open>\<^verbatim>\<open>re.match("^" + prefix + "([a-zA-Z0-9_-]+)", s)\<close>: group 1 when it matches\<close>
  "re_match_id prefix s =
     (if startswith s prefix
      then (let g = takeWhile id_char (drop (length prefix) s)
            in if g = [] then None else Some g)
      else None)"

definition extract_video_id :: "env \<Rightarrow> ParseResult \<Rightarrow> error + string option" where
  "extract_video_id e url_components =
     (let query_params = parse_qs e (query url_components)
      in if path url_components = ''/watch''
         then (case query_params ''v'' of
                 None \<Rightarrow> Inl KeyError
               | Some vs \<Rightarrow> (case list_get vs 0 of Inl err \<Rightarrow> Inl err | Inr v \<Rightarrow> Inr (Some v)))
         else (let livestream_match = re_match_id ''/live/'' (path url_components);
                   shortened_match = re_match_id ''/'' (path url_components)
               in case livestream_match of
                    Some g \<Rightarrow> Inr (Some g)
                  | None \<Rightarrow> (case shortened_match of Some g \<Rightarrow> Inr (Some g) | None \<Rightarrow> Inr None)))"

section \<open>\<^verbatim>\<open>convert_iso8601_duration_to_seconds\<close>\<close>

definition take_segment :: "char \<Rightarrow> string \<Rightarrow> error + int \<times> string" where
  \<comment> \<open>\<^verbatim>\<open>if c in s: part, s = s.split(c); n = int(part)\<close>, else \<^verbatim>\<open>n = 0\<close>\<close>
  "take_segment c s =
     (if c \<in> set s
      then (case split_chr c s of
              [part, rest] \<Rightarrow> (case py_int part of Inl err \<Rightarrow> Inl err | Inr n \<Rightarrow> Inr (n, rest))
            | _ \<Rightarrow> Inl ValueError)
      else Inr (0, s))"

definition convert_iso8601_duration_to_seconds :: "string \<Rightarrow> error + int" where
  "convert_iso8601_duration_to_seconds iso8601_duration =
     (let s = (if startswith iso8601_duration ''PT'' then drop 2 iso8601_duration
               else iso8601_duration)
      in case take_segment CHR ''H'' s of
           Inl err \<Rightarrow> Inl err
         | Inr (hours, s1) \<Rightarrow>
             (case take_segment CHR ''M'' s1 of
                Inl err \<Rightarrow> Inl err
              | Inr (minutes, s2) \<Rightarrow>
                  (case (if CHR ''S'' \<in> set s2 then py_int (filter (\<lambda>c. c \<noteq> CHR ''S'') s2)
                         else Inr 0) of
                     Inl err \<Rightarrow> Inl err
                   | Inr seconds \<Rightarrow> Inr (hours * 3600 + minutes * 60 + seconds))))"

section \<open>\<^verbatim>\<open>fetch_youtube\<close>\<close>

definition fetch_youtube :: "env \<Rightarrow> state \<Rightarrow> ParseResult \<Rightarrow> (error + result) \<times> state" where
  "fetch_youtube e st url_components =
     (case extract_video_id e url_components of
        Inl err \<Rightarrow> (Inl err, st)
      | Inr None \<Rightarrow> (Inr (Invalid ''No video id present''), st)
      | Inr (Some video_id) \<Rightarrow>
          if video_id = [] then (Inr (Invalid ''No video id present''), st)
          else (case yt_cache st video_id of
                  Some video_data \<Rightarrow> (Inr (Video video_data), st)
                | None \<Rightarrow>
                    (let st1 = st\<lparr>calls := calls st @ [VideosList video_id]\<rparr>
                     in case videos_list e video_id of
                          Inl err \<Rightarrow> (Inl err, st1)
                        | Inr [] \<Rightarrow> (Inr (Invalid ''Url doesn't point to a video''), st1)
                        | Inr (response_item # _) \<Rightarrow>
                            (case fromisoformat_timestamp e (snippet_publishedAt response_item) of
                               Inl err \<Rightarrow> (Inl err, st1)
                             | Inr ts \<Rightarrow>
                                 (case convert_iso8601_duration_to_seconds
                                         (contentDetails_duration response_item) of
                                    Inl err \<Rightarrow> (Inl err, st1)
                                  | Inr secs \<Rightarrow>
                                      (let video_data =
                                             \<lparr>title = PStr (snippet_title response_item),
                                              uploader = PStr (snippet_channelTitle response_item),
                                              upload_date = PInt (int_of_float ts),
                                              duration = PInt secs\<rparr>
                                       in (Inr (Video video_data),
                                           st1\<lparr>yt_cache := (yt_cache st1)(video_id \<mapsto> video_data)\<rparr>)))))))"

section \<open>\<^verbatim>\<open>preprocess\<close>\<close>

text \<open>
  A value of the dictionary \<^verbatim>\<open>preprocess\<close> returns: \<^verbatim>\<open>None\<close>, a string (another key
  of the response, or the rewritten URL under the key \<^verbatim>\<open>"url"\<close>), or a function of the
  response. The dictionary keeps insertion order, so it is an association list.
\<close>

datatype correction = CNone | CStr string | CFun "raw \<Rightarrow> error + pyval"

type_synonym changes = "(string \<times> correction) list"

definition twitter_title :: "env \<Rightarrow> raw \<Rightarrow> error + pyval" where
  \<comment> \<open>\<^verbatim>\<open>lambda vid_data: f"X post by {vid_data.get('uploader_id')} ({hash_str(vid_data.get('title'))})"\<close>\<close>
  "twitter_title e vid_data =
     (case hash_str_val (dict_get vid_data ''title'') of
        Inl err \<Rightarrow> Inl err
      | Inr h \<Rightarrow>
          Inr (PStr (''X post by '' @ py_str (float_str e) (dict_get vid_data ''uploader_id'')
                     @ '' ('' @ h @ '')'')))"

definition tiktok_title :: "env \<Rightarrow> raw \<Rightarrow> error + pyval" where
  \<comment> \<open>\<^verbatim>\<open>lambda vid_data: f"Tiktok video by {vid_data.get('uploader')} ({hash_str(vid_data.get('title'))})"\<close>\<close>
  "tiktok_title e vid_data =
     (case hash_str_val (dict_get vid_data ''title'') of
        Inl err \<Rightarrow> Inl err
      | Inr h \<Rightarrow>
          Inr (PStr (''Tiktok video by '' @ py_str (float_str e) (dict_get vid_data ''uploader'')
                     @ '' ('' @ h @ '')'')))"

definition multi_video :: "string \<Rightarrow> error + bool" where
  \<comment> \<open>\<^verbatim>\<open>url[0 : url.rfind("/")].endswith("/video") and int(url[url.rfind("/") + 1 :]) != 1\<close>\<close>
  "multi_video url =
     (if endswith (slice_to url (py_rfind CHR ''/'' url)) ''/video''
      then (case py_int (slice_from url (py_rfind CHR ''/'' url + 1)) of
              Inl err \<Rightarrow> Inl err
            | Inr n \<Rightarrow> Inr (n \<noteq> 1))
      else Inr False)"

definition site_of :: "string \<Rightarrow> error + string" where
  \<comment> \<open>\<^verbatim>\<open>site = netloc.split("."); site = site[0] if len(site) == 2 else site[1]\<close>\<close>
  "site_of nl =
     (let site = split_chr CHR ''.'' nl
      in if length site = 2 then list_get site 0 else list_get site 1)"

text \<open>
  \<^verbatim>\<open>preprocess\<close> calls itself on the rewritten URL. The first argument bounds the depth
  of the calls: Python raises \<^verbatim>\<open>RecursionError\<close> when the interpreter's limit is reached.
\<close>

fun preprocess_depth :: "nat \<Rightarrow> env \<Rightarrow> ParseResult \<Rightarrow> error + changes" where
  "preprocess_depth 0 e url_components = Inl RecursionError"
| "preprocess_depth (Suc n) e url_components =
     (case site_of (netloc url_components) of
        Inl err \<Rightarrow> Inl err
      | Inr site \<Rightarrow>
          if site = ''x'' then
            (let new_url = ''https://twitter.com'' @ path url_components
             in case urlparse e new_url of
                  Inl err \<Rightarrow> Inl err
                | Inr new_components \<Rightarrow>
                    (case preprocess_depth n e new_components of
                       Inl err \<Rightarrow> Inl err
                     | Inr changes \<Rightarrow> Inr (AList.update ''url'' (CStr new_url) changes)))
          else if site = ''twitter'' then
            (let changes = [(''channel'', CStr ''uploader_id''), (''title'', CFun (twitter_title e))]
             in case multi_video (geturl e url_components) of
                  Inl err \<Rightarrow> Inl err
                | Inr True \<Rightarrow> Inr (AList.update ''duration'' CNone changes)
                | Inr False \<Rightarrow> Inr changes)
          else if site = ''newgrounds'' then Inr [(''channel'', CStr ''uploader'')]
          else if site = ''tiktok'' then
            Inr [(''channel'', CStr ''uploader''), (''title'', CFun (tiktok_title e))]
          else if site = ''bilibili'' then Inr [(''channel'', CStr ''uploader'')]
          else Inr [])"

definition recursion_limit :: nat where
  "recursion_limit = 1000"

definition preprocess :: "env \<Rightarrow> ParseResult \<Rightarrow> error + changes" where
  "preprocess e url_components = preprocess_depth recursion_limit e url_components"

section \<open>\<^verbatim>\<open>fetch_ytdlp\<close>\<close>

definition strip_subdomain :: "string \<Rightarrow> error + string" where
  \<comment> \<open>\<^verbatim>\<open>if netloc.find(".") != netloc.rfind("."): netloc = netloc.split(".", 1)[1]\<close>\<close>
  "strip_subdomain nl =
     (if py_find CHR ''.'' nl \<noteq> py_rfind CHR ''.'' nl then list_get (split_max1 CHR ''.'' nl) 1
      else Inr nl)"

definition ytdlp_video_id :: "string \<Rightarrow> error + string" where
  \<comment> \<open>\<^verbatim>\<open>url_components.path.split("?")[0].rstrip("/").split("/")[-1]\<close>\<close>
  "ytdlp_video_id p =
     (case list_get (split_chr CHR ''?'' p) 0 of
        Inl err \<Rightarrow> Inl err
      | Inr a \<Rightarrow> list_get (split_chr CHR ''/'' (rstrip_chr CHR ''/'' a)) (- 1))"

fun apply_changes :: "changes \<Rightarrow> raw \<Rightarrow> error + raw" where
  \<comment> \<open>the loop over \<^verbatim>\<open>preprocess_changes.items()\<close>\<close>
  "apply_changes [] response = Inr response"
| "apply_changes ((response_key, corrected) # rest) response =
     (case corrected of
        CNone \<Rightarrow> apply_changes rest (response(response_key \<mapsto> PNone))
      | CStr k \<Rightarrow> apply_changes rest (response(response_key \<mapsto> dict_get response k))
      | CFun f \<Rightarrow>
          (case f response of
             Inl err \<Rightarrow> Inl err
           | Inr v \<Rightarrow> apply_changes rest (response(response_key \<mapsto> v))))"

definition pop_url :: "string \<Rightarrow> changes \<Rightarrow> error + string \<times> changes" where
  \<comment> \<open>\<^verbatim>\<open>if preprocess_changes and preprocess_changes.get("url"): url = preprocess_changes.pop("url")\<close>;
      \<^verbatim>\<open>preprocess\<close> stores only a string under \<^verbatim>\<open>"url"\<close>\<close>
  "pop_url url preprocess_changes =
     (case map_of preprocess_changes ''url'' of
        None \<Rightarrow> Inr (url, preprocess_changes)
      | Some CNone \<Rightarrow> Inr (url, preprocess_changes)
      | Some (CStr u) \<Rightarrow>
          if u = [] then Inr (url, preprocess_changes)
          else Inr (u, AList.delete ''url'' preprocess_changes)
      | Some (CFun f) \<Rightarrow> Inl TypeError)"

definition first_entry :: "info \<Rightarrow> error + raw" where
  \<comment> \<open>\<^verbatim>\<open>if "entries" in response: response = response["entries"][0]\<close>\<close>
  "first_entry i = (case info_entries i of None \<Rightarrow> Inr (info_fields i) | Some es \<Rightarrow> list_get es 0)"

definition upload_timestamp :: "env \<Rightarrow> raw \<Rightarrow> error + rat" where
  \<comment> \<open>\<^verbatim>\<open>pytz.utc.localize(datetime.strptime(response.get("upload_date"), "%Y%m%d")).timestamp()\<close>\<close>
  "upload_timestamp e response =
     (case dict_get response ''upload_date'' of
        PStr s \<Rightarrow> strptime_utc_timestamp e s
      | _ \<Rightarrow> Inl TypeError)"

definition store_ytdlp :: "state \<Rightarrow> raw \<Rightarrow> video_data \<Rightarrow> error + state" where
  \<comment> \<open>\<^verbatim>\<open>ytdlp_cache[response["webpage_url_domain"]][response["display_id"]] = video_data\<close>\<close>
  "store_ytdlp st response video_data =
     (case response ''webpage_url_domain'' of
        Some (PStr domain) \<Rightarrow>
          (case ytdlp_cache st domain of
             None \<Rightarrow> Inl KeyError
           | Some domain_cache \<Rightarrow>
               (case response ''display_id'' of
                  None \<Rightarrow> Inl KeyError
                | Some display_id \<Rightarrow>
                    Inr (st\<lparr>ytdlp_cache :=
                              (ytdlp_cache st)(domain \<mapsto> domain_cache(display_id \<mapsto> video_data))\<rparr>)))
      | _ \<Rightarrow> Inl KeyError)"

definition normalize :: "env \<Rightarrow> raw \<Rightarrow> error + video_data" where
  \<comment> \<open>lines 166 to 174: the upload date, then the dictionary \<^verbatim>\<open>video_data\<close>\<close>
  "normalize e response =
     (case upload_timestamp e response of
        Inl err \<Rightarrow> Inl err
      | Inr ts \<Rightarrow>
          Inr \<lparr>title = dict_get response ''title'',
               uploader = dict_get response ''channel'',
               upload_date = PFloat ts,
               duration = dict_get response ''duration''\<rparr>)"

definition corrected_response :: "changes \<Rightarrow> info \<Rightarrow> error + raw" where
  \<comment> \<open>lines 150 to 164: the first entry of a collection, then the corrections\<close>
  "corrected_response preprocess_changes response0 =
     (case first_entry response0 of
        Inl err \<Rightarrow> Inl err
      | Inr response \<Rightarrow> apply_changes preprocess_changes response)"

definition fetch_ytdlp_miss :: "env \<Rightarrow> state \<Rightarrow> ParseResult \<Rightarrow> (error + result) \<times> state" where
  \<comment> \<open>lines 138 to 177 of \<^verbatim>\<open>fetch_ytdlp\<close>: what follows a cache miss\<close>
  "fetch_ytdlp_miss e st url_components =
     (case preprocess e url_components of
        Inl err \<Rightarrow> (Inl err, st)
      | Inr changes0 \<Rightarrow>
          (case pop_url (geturl e url_components) changes0 of
             Inl err \<Rightarrow> (Inl err, st)
           | Inr (url, preprocess_changes) \<Rightarrow>
               (let st1 = st\<lparr>calls := calls st @ [ExtractInfo url]\<rparr>
                in case extract_info e url of
                     Inl err \<Rightarrow>
                       if err = DownloadError
                       then (Inr (Invalid ''Url doesn't point to a video''), st1)
                       else (Inl err, st1)
                   | Inr response0 \<Rightarrow>
                       (case corrected_response preprocess_changes response0 of
                          Inl err \<Rightarrow> (Inl err, st1)
                        | Inr response \<Rightarrow>
                            (case normalize e response of
                               Inl err \<Rightarrow> (Inl err, st1)
                             | Inr video_data \<Rightarrow>
                                 (case store_ytdlp st1 response video_data of
                                    Inl err \<Rightarrow> (Inl err, st1)
                                  | Inr st2 \<Rightarrow> (Inr (Video video_data), st2)))))))"

definition fetch_ytdlp :: "env \<Rightarrow> state \<Rightarrow> ParseResult \<Rightarrow> (error + result) \<times> state" where
  "fetch_ytdlp e st url_components =
     (case strip_subdomain (netloc url_components) of
        Inl err \<Rightarrow> (Inl err, st)
      | Inr nl \<Rightarrow>
          if nl \<notin> set accepted_domains
          then (Inr (Invalid ''Url not from an accepted domain''), st)
          else
            (case ytdlp_video_id (path url_components) of
               Inl err \<Rightarrow> (Inl err, st)
             | Inr video_id \<Rightarrow>
                 (case ytdlp_cache st nl of
                    None \<Rightarrow> (Inl KeyError, st)
                  | Some domain_cache \<Rightarrow>
                      (case domain_cache (PStr video_id) of
                         Some video_data \<Rightarrow> (Inr (Video video_data), st)
                       | None \<Rightarrow> fetch_ytdlp_miss e st url_components))))"

section \<open>\<^verbatim>\<open>update_item\<close>\<close>

fun parse_all :: "env \<Rightarrow> string list \<Rightarrow> error + ParseResult list" where
  \<comment> \<open>\<^verbatim>\<open>[urlparse(url) for url in urls]\<close>\<close>
  "parse_all e [] = Inr []"
| "parse_all e (url # urls) =
     (case urlparse e url of
        Inl err \<Rightarrow> Inl err
      | Inr u \<Rightarrow> (case parse_all e urls of Inl err \<Rightarrow> Inl err | Inr us \<Rightarrow> Inr (u # us)))"

definition fetch_one :: "env \<Rightarrow> state \<Rightarrow> ParseResult \<Rightarrow> (error + result) \<times> state" where
  \<comment> \<open>\<^verbatim>\<open>fetch_youtube(u) if u.netloc in youtube_domains else fetch_ytdlp(u)\<close>\<close>
  "fetch_one e st url_components =
     (if netloc url_components \<in> set youtube_domains then fetch_youtube e st url_components
      else fetch_ytdlp e st url_components)"

fun fetch_all :: "env \<Rightarrow> state \<Rightarrow> ParseResult list \<Rightarrow> (error + result list) \<times> state" where
  \<comment> \<open>the second list comprehension: an exception ends it, with no list\<close>
  "fetch_all e st [] = (Inr [], st)"
| "fetch_all e st (u # us) =
     (case fetch_one e st u of
        (Inl err, st1) \<Rightarrow> (Inl err, st1)
      | (Inr r, st1) \<Rightarrow>
          (case fetch_all e st1 us of
             (Inl err, st2) \<Rightarrow> (Inl err, st2)
           | (Inr rs, st2) \<Rightarrow> (Inr (r # rs), st2)))"

definition update_item :: "env \<Rightarrow> state \<Rightarrow> string list \<Rightarrow> (error + result list) \<times> state" where
  "update_item e st urls =
     (case parse_all e urls of
        Inl err \<Rightarrow> (Inl err, st)
      | Inr us \<Rightarrow> fetch_all e st us)"

section \<open>Notions used to state the properties\<close>

definition is_int :: "pyval \<Rightarrow> bool" where
  "is_int v = (case v of PInt i \<Rightarrow> True | _ \<Rightarrow> False)"


definition is_str :: "pyval \<Rightarrow> bool" where
  "is_str v = (case v of PStr x \<Rightarrow> True | _ \<Rightarrow> False)"

definition is_whole :: "pyval \<Rightarrow> bool" where
  \<comment> \<open>a number with an integer value, whether Python holds it as \<^verbatim>\<open>int\<close> or \<^verbatim>\<open>float\<close>\<close>
  "is_whole v = (case v of PInt i \<Rightarrow> True | PFloat x \<Rightarrow> of_int \<lfloor>x\<rfloor> = x | _ \<Rightarrow> False)"

definition yt_record :: "video_data \<Rightarrow> bool" where
  "yt_record r =
     (is_str (title r) \<and> is_str (uploader r) \<and> is_int (upload_date r) \<and> is_int (duration r))"

definition yt_cache_typed :: "state \<Rightarrow> bool" where
  "yt_cache_typed st = (\<forall>video_id r. yt_cache st video_id = Some r \<longrightarrow> yt_record r)"

definition ytdlp_response :: "env \<Rightarrow> ParseResult \<Rightarrow> error + raw" where
  \<comment> \<open>the provider record \<^verbatim>\<open>fetch_ytdlp\<close> normalizes after a cache miss (lines 138 to 164)\<close>
  "ytdlp_response e url_components =
     (case preprocess e url_components of
        Inl err \<Rightarrow> Inl err
      | Inr changes0 \<Rightarrow>
          (case pop_url (geturl e url_components) changes0 of
             Inl err \<Rightarrow> Inl err
           | Inr (url, preprocess_changes) \<Rightarrow>
               (case extract_info e url of
                  Inl err \<Rightarrow> Inl err
                | Inr response0 \<Rightarrow> corrected_response preprocess_changes response0)))"

definition pseudonym :: "string \<Rightarrow> string" where
  \<comment> \<open>the first five characters of the digest of the UTF-8 bytes of a string\<close>
  "pseudonym t = take 5 (hexdigest (sha256 (concat (map utf8 (map of_char t)))))"

definition twitter_changes :: "env \<Rightarrow> changes" where
  \<comment> \<open>the two corrections \<^verbatim>\<open>preprocess\<close> always makes for \<^verbatim>\<open>twitter\<close>\<close>
  "twitter_changes e = [(''channel'', CStr ''uploader_id''), (''title'', CFun (twitter_title e))]"

definition segment :: "string option \<Rightarrow> char \<Rightarrow> string" where
  \<comment> \<open>an optional segment of a duration token: the digits, then the unit letter\<close>
  "segment d c = (case d of None \<Rightarrow> [] | Some ds \<Rightarrow> ds @ [c])"

definition segment_val :: "string option \<Rightarrow> int" where
  "segment_val d = (case d of None \<Rightarrow> 0 | Some ds \<Rightarrow> int (dec_val ds))"

definition segment_ok :: "string option \<Rightarrow> bool" where
  "segment_ok d =
     (case d of
        None \<Rightarrow> True
      | Some ds \<Rightarrow> ds \<noteq> [] \<and> length ds \<le> int_max_str_digits \<and> list_all is_digit ds)"

definition duration_token :: "string option \<Rightarrow> string option \<Rightarrow> string option \<Rightarrow> string" where
  "duration_token h m s = ''PT'' @ segment h CHR ''H'' @ segment m CHR ''M'' @ segment s CHR ''S''"

section \<open>A concrete environment\<close>

text \<open>
  Stand-ins for the libraries and the providers, on which the theorems are instantiated.
  \<open>mock_urlparse\<close> and \<open>mock_geturl\<close> agree with \<^verbatim>\<open>urllib.parse\<close> on the URLs used here:
  \<^verbatim>\<open>https\<close> URLs with no query, parameters or fragment.
\<close>

definition mock_urlparse :: "string \<Rightarrow> error + ParseResult" where
  "mock_urlparse url =
     (if startswith url ''https://''
      then Inr \<lparr>scheme = ''https'',
                netloc = takeWhile (\<lambda>c. c \<noteq> CHR ''/'') (drop 8 url),
                path = dropWhile (\<lambda>c. c \<noteq> CHR ''/'') (drop 8 url),
                params = [], query = [], fragment = []\<rparr>
      else Inr \<lparr>scheme = [], netloc = [], path = url, params = [], query = [], fragment = []\<rparr>)"

definition mock_geturl :: "ParseResult \<Rightarrow> string" where
  "mock_geturl u = scheme u @ ''://'' @ netloc u @ path u"

definition mock_parse_qs :: "string \<Rightarrow> (string \<rightharpoonup> string list)" where
  "mock_parse_qs q = (if q = ''v=abc'' then [''v'' \<mapsto> [''abc'']] else Map.empty)"

definition mock_item :: yt_item where
  "mock_item =
     \<lparr>snippet_title = ''A video'', snippet_channelTitle = ''A channel'',
      snippet_publishedAt = ''2024-05-01T00:00:00+00:00'', contentDetails_duration = ''PT1H2M3S''\<rparr>"

definition mock_videos_list :: "string \<Rightarrow> error + yt_item list" where
  "mock_videos_list video_id = (if video_id = ''abc'' then Inr [mock_item] else Inr [])"

definition tweet :: raw where
  "tweet =
     [''uploader_id'' \<mapsto> PStr ''abc'', ''title'' \<mapsto> PStr ''hello'',
      ''upload_date'' \<mapsto> PStr ''20240501'', ''duration'' \<mapsto> PInt 30,
      ''webpage_url_domain'' \<mapsto> PStr ''twitter.com'', ''display_id'' \<mapsto> PStr ''123'']"

definition clip :: raw where
  "clip =
     [''title'' \<mapsto> PStr ''A clip'', ''channel'' \<mapsto> PStr ''A studio'',
      ''upload_date'' \<mapsto> PStr ''20240501'', ''duration'' \<mapsto> PFloat (61 / 2),
      ''webpage_url_domain'' \<mapsto> PStr ''vimeo.com'', ''display_id'' \<mapsto> PStr ''12345'']"

definition mock_extract_info :: "string \<Rightarrow> error + info" where
  "mock_extract_info url =
     (if url = ''https://twitter.com/abc/status/123'' then Inr \<lparr>info_fields = tweet, info_entries = None\<rparr>
      else if url = ''https://twitter.com/abc/status/123/video/2''
      then Inr \<lparr>info_fields = tweet, info_entries = None\<rparr>
      else if url = ''https://vimeo.com/12345'' then Inr \<lparr>info_fields = clip, info_entries = None\<rparr>
      else Inl DownloadError)"

definition mock_env :: env where
  "mock_env =
     \<lparr>urlparse = mock_urlparse, geturl = mock_geturl, parse_qs = mock_parse_qs,
      videos_list = mock_videos_list, extract_info = mock_extract_info,
      fromisoformat_timestamp =
        (\<lambda>s. if s = ''2024-05-01T00:00:00+00:00'' then Inr 1714521600 else Inl ValueError),
      strptime_utc_timestamp = (\<lambda>s. if s = ''20240501'' then Inr 1714521600 else Inl ValueError),
      float_str = (\<lambda>x. ''float'')\<rparr>"

definition abc_record :: video_data where
  "abc_record =
     \<lparr>title = PStr ''A video'', uploader = PStr ''A channel'',
      upload_date = PInt 1714521600, duration = PInt 3723\<rparr>"

definition clip_record :: video_data where
  "clip_record =
     \<lparr>title = PStr ''A clip'', uploader = PStr ''A studio'',
      upload_date = PFloat 1714521600, duration = PFloat (61 / 2)\<rparr>"

definition tweet_record :: video_data where
  "tweet_record =
     \<lparr>title = PStr ''X post by abc (2cf24)'', uploader = PStr ''abc'',
      upload_date = PFloat 1714521600, duration = PInt 30\<rparr>"

definition tweet_corrected :: raw where
  \<comment> \<open>\<open>tweet\<close> after the two corrections for \<^verbatim>\<open>twitter\<close>\<close>
  "tweet_corrected =
     tweet(''channel'' \<mapsto> PStr ''abc'',
           ''title'' \<mapsto> PStr ''X post by abc (2cf24)'')"

definition after_tweet :: state where
  \<comment> \<open>the state after \<^verbatim>\<open>https://twitter.com/abc/status/123\<close> is fetched at start\<close>
  "after_tweet =
     init_state\<lparr>calls := [ExtractInfo ''https://twitter.com/abc/status/123''],
                ytdlp_cache := (ytdlp_cache init_state)
                   (''twitter.com'' \<mapsto> [PStr ''123'' \<mapsto> tweet_record])\<rparr>"

definition after_video2 :: state where
  \<comment> \<open>the state after \<^verbatim>\<open>https://twitter.com/abc/status/123/video/2\<close> is fetched at start\<close>
  "after_video2 =
     init_state\<lparr>calls := [ExtractInfo ''https://twitter.com/abc/status/123/video/2''],
                ytdlp_cache := (ytdlp_cache init_state)
                   (''twitter.com'' \<mapsto> [PStr ''123'' \<mapsto> tweet_record\<lparr>duration := PNone\<rparr>])\<rparr>"

definition after_clip :: state where
  \<comment> \<open>the state after \<^verbatim>\<open>https://vimeo.com/12345\<close> is fetched at start\<close>
  "after_clip =
     init_state\<lparr>calls := [ExtractInfo ''https://vimeo.com/12345''],
                ytdlp_cache := (ytdlp_cache init_state)
                   (''vimeo.com'' \<mapsto> [PStr ''12345'' \<mapsto> clip_record])\<rparr>"

definition url_of :: "string \<Rightarrow> string \<Rightarrow> ParseResult" where
  \<comment> \<open>the components of \<^verbatim>\<open>https://<netloc><path>\<close>\<close>
  "url_of nl p = \<lparr>scheme = ''https'', netloc = nl, path = p, params = [], query = [], fragment = []\<rparr>"

section \<open>The duration codec\<close>

lemma is_digit_not_underscore: "is_digit d \<Longrightarrow> d \<noteq> CHR ''_''"
  by (auto simp: is_digit_def)

lemma is_digit_not_space: "is_digit d \<Longrightarrow> \<not> is_space d"
  by (auto simp: is_digit_def is_space_def)

lemma is_digit_not_sign: "is_digit d \<Longrightarrow> d \<noteq> CHR ''-'' \<and> d \<noteq> CHR ''+''"
  by (auto simp: is_digit_def)

lemma int_digits_digits: "ds \<noteq> [] \<Longrightarrow> list_all is_digit ds \<Longrightarrow> int_digits ds = Some ds"
proof (induction ds rule: int_digits.induct)
  case 1
  then show ?case by simp
next
  case (2 c)
  then show ?case by simp
next
  case (3 c d cs)
  then show ?case by (simp add: is_digit_not_underscore)
qed

lemma dropWhile_rev_last: "xs \<noteq> [] \<Longrightarrow> \<not> P (last xs) \<Longrightarrow> dropWhile P (rev xs) = rev xs"
  by (cases xs rule: rev_cases) simp_all

lemma dropWhile_hd: "xs \<noteq> [] \<Longrightarrow> \<not> P (hd xs) \<Longrightarrow> dropWhile P xs = xs"
  by (cases xs) simp_all

lemma py_int_digits:
  assumes "ds \<noteq> []" and "list_all is_digit ds" and "length ds \<le> int_max_str_digits"
  shows "py_int ds = Inr (int (dec_val ds))"
proof -
  from assms have hd: "is_digit (hd ds)" and lst: "is_digit (last ds)"
    by (auto simp: list_all_iff)
  have strip: "rev (dropWhile is_space (rev (dropWhile is_space ds))) = ds"
    using assms(1) hd lst by (simp add: dropWhile_hd dropWhile_rev_last is_digit_not_space)
  have sign: "take (Suc 0) ds \<noteq> ''-''" "take (Suc 0) ds \<noteq> ''+''"
    using assms(1) hd is_digit_not_sign by (cases ds; auto)+
  show ?thesis
    using assms by (simp add: py_int_def strip sign int_digits_digits)
qed

lemma split_chr_notin: "c \<notin> set s \<Longrightarrow> split_chr c s = [s]"
  by (induction s) auto

lemma split_chr_append: "c \<notin> set a \<Longrightarrow> split_chr c (a @ c # b) = a # split_chr c b"
  by (induction a) auto

lemma segment_set: "segment_ok d \<Longrightarrow> \<not> is_digit x \<Longrightarrow> x \<noteq> c \<Longrightarrow> x \<notin> set (segment d c)"
  by (cases d) (auto simp: segment_def segment_ok_def list_all_iff)

lemma take_segment_segment:
  assumes "segment_ok d" and "\<not> is_digit c" and "c \<notin> set rest"
  shows "take_segment c (segment d c @ rest) = Inr (segment_val d, rest)"
proof (cases d)
  case None
  then show ?thesis using assms by (simp add: take_segment_def segment_def segment_val_def)
next
  case (Some ds)
  with assms have ds: "ds \<noteq> []" "list_all is_digit ds" "length ds \<le> int_max_str_digits"
    by (auto simp: segment_ok_def)
  with assms(2) have "c \<notin> set ds" by (auto simp: list_all_iff)
  then have "split_chr c (ds @ c # rest) = [ds, rest]"
    using assms(3) by (simp add: split_chr_append split_chr_notin)
  then show ?thesis
    using Some ds by (simp add: take_segment_def segment_def segment_val_def py_int_digits)
qed

lemma seconds_segment:
  assumes "segment_ok d"
  shows "(if CHR ''S'' \<in> set (segment d CHR ''S'')
          then py_int (filter (\<lambda>c. c \<noteq> CHR ''S'') (segment d CHR ''S'')) else Inr 0)
         = Inr (segment_val d)"
proof (cases d)
  case None
  then show ?thesis by (simp add: segment_def segment_val_def)
next
  case (Some ds)
  with assms have ds: "ds \<noteq> []" "list_all is_digit ds" "length ds \<le> int_max_str_digits"
    by (auto simp: segment_ok_def)
  have "\<not> is_digit CHR ''S''" by (simp add: is_digit_def)
  with ds(2) have "CHR ''S'' \<notin> set ds" by (auto simp: list_all_iff)
  then have "\<forall>x\<in>set ds. x \<noteq> CHR ''S''" by blast
  then have "filter (\<lambda>c. c \<noteq> CHR ''S'') ds = ds" by (simp only: filter_id_conv)
  then show ?thesis
    using Some ds by (simp add: segment_def segment_val_def py_int_digits)
qed

lemma convert_token:
  assumes "segment_ok h" and "segment_ok m" and "segment_ok s"
  shows "convert_iso8601_duration_to_seconds (duration_token h m s)
         = Inr (segment_val h * 3600 + segment_val m * 60 + segment_val s)"
proof -
  have nd: "\<not> is_digit CHR ''H''" "\<not> is_digit CHR ''M''" "\<not> is_digit CHR ''S''"
    by (simp_all add: is_digit_def)
  have notin: "CHR ''H'' \<notin> set (segment m CHR ''M'' @ segment s CHR ''S'')"
    "CHR ''M'' \<notin> set (segment s CHR ''S'')"
    using assms nd by (simp_all add: segment_set)
  have H: "take_segment CHR ''H'' (segment h CHR ''H'' @ (segment m CHR ''M'' @ segment s CHR ''S''))
           = Inr (segment_val h, segment m CHR ''M'' @ segment s CHR ''S'')"
    using assms(1) nd(1) notin(1) by (rule take_segment_segment)
  have M: "take_segment CHR ''M'' (segment m CHR ''M'' @ segment s CHR ''S'')
           = Inr (segment_val m, segment s CHR ''S'')"
    using assms(2) nd(2) notin(2) by (rule take_segment_segment)
  show ?thesis
    using H M seconds_segment [OF assms(3)]
    by (simp add: convert_iso8601_duration_to_seconds_def duration_token_def startswith_def)
qed

lemmas convert_eval = convert_iso8601_duration_to_seconds_def take_segment_def startswith_def
  py_int_def is_space_def is_digit_def dec_val_def digit_val_def int_max_str_digits_def

text \<open>
  C6: the duration codec maps a token made of the prefix \<^verbatim>\<open>PT\<close> and optional hours,
  minutes and seconds segments (digits, then \<^verbatim>\<open>H\<close>, \<^verbatim>\<open>M\<close>, \<^verbatim>\<open>S\<close>) to
  hours * 3600 + minutes * 60 + seconds, a missing segment counting as zero; and
  \<^verbatim>\<open>PT1H2M3S\<close>, \<^verbatim>\<open>PT45S\<close>, \<^verbatim>\<open>PT2H\<close>, \<^verbatim>\<open>PT\<close> give 3723, 45, 7200 and 0.
\<close>

theorem duration_codec:
  "(segment_ok h \<and> segment_ok m \<and> segment_ok s \<longrightarrow>
      convert_iso8601_duration_to_seconds (duration_token h m s)
      = Inr (segment_val h * 3600 + segment_val m * 60 + segment_val s))
   \<and> convert_iso8601_duration_to_seconds ''PT1H2M3S'' = Inr 3723
   \<and> convert_iso8601_duration_to_seconds ''PT45S'' = Inr 45
   \<and> convert_iso8601_duration_to_seconds ''PT2H'' = Inr 7200
   \<and> convert_iso8601_duration_to_seconds ''PT'' = Inr 0"
proof (intro conjI impI)
  assume "segment_ok h \<and> segment_ok m \<and> segment_ok s"
  then show "convert_iso8601_duration_to_seconds (duration_token h m s)
             = Inr (segment_val h * 3600 + segment_val m * 60 + segment_val s)"
    by (simp add: convert_token)
next
  show "convert_iso8601_duration_to_seconds ''PT1H2M3S'' = Inr 3723"
    by (simp add: convert_eval)
next
  show "convert_iso8601_duration_to_seconds ''PT45S'' = Inr 45"
    by (simp add: convert_eval)
next
  show "convert_iso8601_duration_to_seconds ''PT2H'' = Inr 7200"
    by (simp add: convert_eval)
next
  show "convert_iso8601_duration_to_seconds ''PT'' = Inr 0"
    by (simp add: convert_eval)
qed

theorem duration_codec_witness:
  "segment_ok (Some ''10'') \<and> segment_ok None \<and> segment_ok (Some ''07'')
   \<and> duration_token (Some ''10'') None (Some ''07'') = ''PT10H07S''
   \<and> convert_iso8601_duration_to_seconds (duration_token (Some ''10'') None (Some ''07''))
       = Inr 36007"
  using duration_codec [of "Some ''10''" None "Some ''07''"]
  by (simp add: segment_ok_def segment_val_def segment_def duration_token_def is_digit_def
      int_max_str_digits_def dec_val_def digit_val_def)

section \<open>The pseudonymizer\<close>

text \<open>
  The digests of three messages, computed by the definitions: \<^verbatim>\<open>hello\<close>, the empty
  message, and the 56 bytes \<^verbatim>\<open>abcdbcdecdef...nopq\<close>, which pad to two blocks.
\<close>

lemma sha256_hello:
  "sha256 [104, 101, 108, 108, 111]
   = (754077114, 1605411598, 652753706, 3317293726, 454434396, 531055198, 1929655138, 2475399204)"
  by code_simp

lemma hexdigest_hello:
  "hexdigest (754077114, 1605411598, 652753706, 3317293726, 454434396, 531055198, 1929655138, 2475399204)
   = ''2cf24dba5fb0a30e26e83b2ac5b9e29e1b161e5c1fa7425e73043362938b9824''"
  by (simp add: hexdigest_def hex8_def hex_digit_def)

lemma sha256_empty:
  "sha256 []
   = (3820012610, 2566659092, 2600203464, 2574235940, 665731556, 1687917388, 2761267483, 2018687061)"
  by code_simp

lemma hexdigest_empty:
  "hexdigest (3820012610, 2566659092, 2600203464, 2574235940, 665731556, 1687917388, 2761267483, 2018687061)
   = ''e3b0c44298fc1c149afbf4c8996fb92427ae41e4649b934ca495991b7852b855''"
  by (simp add: hexdigest_def hex8_def hex_digit_def)

lemma sha256_two_blocks:
  "sha256 [97, 98, 99, 100, 98, 99, 100, 101, 99, 100, 101, 102, 100, 101, 102, 103, 101, 102, 103, 104, 102, 103, 104, 105, 103, 104, 105, 106, 104, 105, 106, 107, 105, 106, 107, 108, 106, 107, 108, 109, 107, 108, 109, 110, 108, 109, 110, 111, 109, 110, 111, 112, 110, 111, 112, 113]
   = (613247585, 3523623096, 3854575251, 205414457, 2738676825, 1694441831, 4142722516, 433784513)"
  by code_simp

lemma hexdigest_two_blocks:
  "hexdigest (613247585, 3523623096, 3854575251, 205414457, 2738676825, 1694441831, 4142722516, 433784513)
   = ''248d6a61d20638b8e5c026930c3e6039a33ce45964ff2167f6ecedd419db06c1''"
  by (simp add: hexdigest_def hex8_def hex_digit_def)

lemma length_hex8: "length (hex8 w) = 8"
  by (simp add: hex8_def)

lemma hex_digit_in: "hex_digit n \<in> set ''0123456789abcdef''"
proof -
  have "n mod 16 < length ''0123456789abcdef''" by simp
  then show ?thesis unfolding hex_digit_def by (rule nth_mem)
qed

lemma set_hex8: "set (hex8 w) \<subseteq> set ''0123456789abcdef''"
  using hex_digit_in by (auto simp: hex8_def)

lemma length_hexdigest: "length (hexdigest x) = 64"
proof -
  obtain a b c d e f g h where "x = (a, b, c, d, e, f, g, h)" by (cases x) auto
  then show ?thesis by (simp add: hexdigest_def length_hex8)
qed

lemma set_hexdigest: "set (hexdigest x) \<subseteq> set ''0123456789abcdef''"
proof -
  obtain a b c d e f g h where "x = (a, b, c, d, e, f, g, h)" by (cases x) auto
  then show ?thesis using set_hex8 by (auto simp only: hexdigest_def prod.case set_append)
qed

lemma hash_str_encoded:
  "\<not> list_ex surrogate s \<Longrightarrow>
   hash_str s = Inr (take 5 (hexdigest (sha256 (concat (map utf8 s)))))"
  by (simp add: hash_str_def encode_def)

lemma hash_str_surrogate: "list_ex surrogate s \<Longrightarrow> hash_str s = Inl UnicodeEncodeError"
  by (simp add: hash_str_def encode_def)

lemma of_char_no_surrogate: "\<not> list_ex surrogate (map of_char t)"
proof -
  have "\<not> surrogate (of_char c)" for c :: char
  proof -
    have "(of_char c :: nat) mod 256 < 256" by (rule mod_less_divisor) simp
    then have "(of_char c :: nat) < 256" by (simp only: of_char_mod_256)
    then show ?thesis unfolding surrogate_def by linarith
  qed
  then show ?thesis by (simp add: list_ex_iff)
qed

lemma hash_str_chars: "hash_str (map of_char t) = Inr (pseudonym t)"
  unfolding pseudonym_def using of_char_no_surrogate by (rule hash_str_encoded)


lemma codepoints_hello: "map of_char ''hello'' = [104, 101, 108, 108, 111 :: nat]"
  by simp

lemma encode_ascii:
  "encode [104, 101, 108, 108, 111] = Inr [104, 101, 108, 108, 111]"
  "encode [] = Inr []"
  by (simp_all add: encode_def surrogate_def utf8_def)

lemma encode_multibyte:
  "encode [0xE9] = Inr [0xC3, 0xA9]"
  "encode [0x20AC] = Inr [0xE2, 0x82, 0xAC]"
  "encode [0x1F600] = Inr [0xF0, 0x9F, 0x98, 0x80]"
  by (simp_all add: encode_def surrogate_def utf8_def)

lemma hash_hello: "hash_str (map of_char ''hello'') = Inr ''2cf24''"
  by (simp only: codepoints_hello hash_str_def encode_ascii sum.case sha256_hello hexdigest_hello)
     simp

lemma hash_empty: "hash_str [] = Inr ''e3b0c''"
  by (simp only: hash_str_def encode_ascii sum.case sha256_empty hexdigest_empty) simp

lemma pseudonym_hello: "pseudonym ''hello'' = ''2cf24''"
  using hash_hello by (simp only: hash_str_chars sum.inject)

text \<open>
  C7, as amended: \<^verbatim>\<open>hash_str\<close> reads nothing but its argument, so equal inputs give equal
  outputs. For every string without a surrogate code point it returns five hexadecimal
  characters, the first five of the SHA-256 digest of the string's UTF-8 bytes: \<^verbatim>\<open>e3b0c\<close>
  for the empty string and \<^verbatim>\<open>2cf24\<close> for \<^verbatim>\<open>hello\<close>, as \<^verbatim>\<open>hashlib\<close> gives, and the
  digests of \<^verbatim>\<open>hello\<close> and of a message of two blocks are the published ones. For a
  string with a surrogate code point \<^verbatim>\<open>encode()\<close> raises \<^verbatim>\<open>UnicodeEncodeError\<close> and
  there is no output. (The claim promises five characters for every string.)
\<close>

theorem pseudonymizer:
  "(\<not> list_ex surrogate s \<longrightarrow>
      (\<exists>h. hash_str s = Inr h \<and> length h = 5 \<and> set h \<subseteq> set ''0123456789abcdef''
            \<and> h = take 5 (hexdigest (sha256 (concat (map utf8 s))))))
   \<and> (list_ex surrogate s \<longrightarrow> hash_str s = Inl UnicodeEncodeError)
   \<and> hash_str [] = Inr ''e3b0c''
   \<and> hash_str (map of_char ''hello'') = Inr ''2cf24''
   \<and> hexdigest (sha256 [104, 101, 108, 108, 111])
       = ''2cf24dba5fb0a30e26e83b2ac5b9e29e1b161e5c1fa7425e73043362938b9824''
   \<and> hexdigest (sha256 (concat (map utf8 (map of_char
         ''abcdbcdecdefdefgefghfghighijhijkijkljklmklmnlmnomnopnopq''))))
       = ''248d6a61d20638b8e5c026930c3e6039a33ce45964ff2167f6ecedd419db06c1''
   \<and> encode [0xE9] = Inr [0xC3, 0xA9]
   \<and> encode [0x20AC] = Inr [0xE2, 0x82, 0xAC]
   \<and> encode [0x1F600] = Inr [0xF0, 0x9F, 0x98, 0x80]"
proof (intro conjI impI)
  assume ok: "\<not> list_ex surrogate s"
  let ?h = "take 5 (hexdigest (sha256 (concat (map utf8 s))))"
  have "set ?h \<subseteq> set (hexdigest (sha256 (concat (map utf8 s))))" by (rule set_take_subset)
  then have "set ?h \<subseteq> set ''0123456789abcdef''" using set_hexdigest by (rule subset_trans)
  moreover have "length ?h = 5" by (simp add: length_hexdigest)
  ultimately show "\<exists>h. hash_str s = Inr h \<and> length h = 5 \<and> set h \<subseteq> set ''0123456789abcdef''
            \<and> h = take 5 (hexdigest (sha256 (concat (map utf8 s))))"
    using hash_str_encoded [OF ok] by blast
next
  assume "list_ex surrogate s"
  then show "hash_str s = Inl UnicodeEncodeError" by (rule hash_str_surrogate)
next
  show "hash_str [] = Inr ''e3b0c''" by (rule hash_empty)
next
  show "hash_str (map of_char ''hello'') = Inr ''2cf24''" by (rule hash_hello)
next
  show "hexdigest (sha256 [104, 101, 108, 108, 111])
       = ''2cf24dba5fb0a30e26e83b2ac5b9e29e1b161e5c1fa7425e73043362938b9824''"
    by (simp only: sha256_hello hexdigest_hello)
next
  have "concat (map utf8 (map of_char ''abcdbcdecdefdefgefghfghighijhijkijkljklmklmnlmnomnopnopq''))
        = [97, 98, 99, 100, 98, 99, 100, 101, 99, 100, 101, 102, 100, 101, 102, 103, 101, 102, 103, 104, 102, 103, 104, 105, 103, 104, 105, 106, 104, 105, 106, 107, 105, 106, 107, 108, 106, 107, 108, 109, 107, 108, 109, 110, 108, 109, 110, 111, 109, 110, 111, 112, 110, 111, 112, 113]"
    by (simp add: utf8_def)
  then show "hexdigest (sha256 (concat (map utf8 (map of_char
         ''abcdbcdecdefdefgefghfghighijhijkijkljklmklmnlmnomnopnopq''))))
       = ''248d6a61d20638b8e5c026930c3e6039a33ce45964ff2167f6ecedd419db06c1''"
    by (simp only: sha256_two_blocks hexdigest_two_blocks)
next
  show "encode [0xE9] = Inr [0xC3, 0xA9]" "encode [0x20AC] = Inr [0xE2, 0x82, 0xAC]"
    "encode [0x1F600] = Inr [0xF0, 0x9F, 0x98, 0x80]"
    by (rule encode_multibyte)+
qed

theorem pseudonymizer_witness:
  "\<not> list_ex surrogate [0x68, 0x69]
   \<and> (\<exists>h. hash_str [0x68, 0x69] = Inr h \<and> length h = 5 \<and> set h \<subseteq> set ''0123456789abcdef'')
   \<and> list_ex surrogate [0x68, 0xDC00]
   \<and> hash_str [0x68, 0xDC00] = Inl UnicodeEncodeError"
proof -
  have a: "\<not> list_ex surrogate [0x68, 0x69]" and b: "list_ex surrogate [0x68, 0xDC00]"
    by (simp_all add: surrogate_def)
  from a pseudonymizer [of "[0x68, 0x69]"]
  have "\<exists>h. hash_str [0x68, 0x69] = Inr h \<and> length h = 5 \<and> set h \<subseteq> set ''0123456789abcdef''"
    by blast
  moreover from b pseudonymizer [of "[0x68, 0xDC00]"]
  have "hash_str [0x68, 0xDC00] = Inl UnicodeEncodeError" by blast
  ultimately show ?thesis using a b by blast
qed

theorem surrogate_title_raises:
  "encode [0xD800] = Inl UnicodeEncodeError \<and> hash_str [0xD800] = Inl UnicodeEncodeError"
  by (simp add: hash_str_def encode_def surrogate_def)

section \<open>The two adapters: what a result tells about the run\<close>

lemma fetch_youtube_video:
  assumes "fetch_youtube e st u = (Inr (Video r), st1)"
  shows "\<exists>vid. extract_video_id e u = Inr (Some vid) \<and> vid \<noteq> [] \<and> yt_cache st1 vid = Some r
           \<and> ytdlp_cache st1 = ytdlp_cache st
           \<and> ((st1 = st \<and> yt_cache st vid = Some r)
               \<or> (calls st1 = calls st @ [VideosList vid] \<and> yt_cache st vid = None \<and> yt_record r
                   \<and> yt_cache st1 = (yt_cache st)(vid \<mapsto> r)))"
  using assms
  by (auto simp: fetch_youtube_def Let_def yt_record_def is_str_def is_int_def
      split: sum.splits option.splits list.splits if_splits)

lemma fetch_youtube_hit:
  "extract_video_id e u = Inr (Some vid) \<Longrightarrow> vid \<noteq> [] \<Longrightarrow> yt_cache st vid = Some r \<Longrightarrow>
   fetch_youtube e st u = (Inr (Video r), st)"
  by (simp add: fetch_youtube_def)

lemma fetch_ytdlp_video:
  assumes "fetch_ytdlp e st u = (Inr (Video r), st1)"
  shows "\<exists>nl vid dc. strip_subdomain (netloc u) = Inr nl \<and> nl \<in> set accepted_domains
           \<and> ytdlp_video_id (path u) = Inr vid \<and> ytdlp_cache st nl = Some dc
           \<and> ((dc (PStr vid) = Some r \<and> st1 = st)
               \<or> (dc (PStr vid) = None \<and> fetch_ytdlp_miss e st u = (Inr (Video r), st1)))"
  using assms
  by (auto simp: fetch_ytdlp_def split: sum.splits option.splits if_splits)

lemma fetch_ytdlp_hit:
  "strip_subdomain (netloc u) = Inr nl \<Longrightarrow> nl \<in> set accepted_domains \<Longrightarrow>
   ytdlp_video_id (path u) = Inr vid \<Longrightarrow> ytdlp_cache st nl = Some dc \<Longrightarrow>
   dc (PStr vid) = Some r \<Longrightarrow> fetch_ytdlp e st u = (Inr (Video r), st)"
  by (simp add: fetch_ytdlp_def)

lemma fetch_ytdlp_to_miss:
  "strip_subdomain (netloc u) = Inr nl \<Longrightarrow> nl \<in> set accepted_domains \<Longrightarrow>
   ytdlp_video_id (path u) = Inr vid \<Longrightarrow> ytdlp_cache st nl = Some dc \<Longrightarrow>
   dc (PStr vid) = None \<Longrightarrow> fetch_ytdlp e st u = fetch_ytdlp_miss e st u"
  by (simp add: fetch_ytdlp_def)

lemma fetch_ytdlp_miss_video:
  assumes "fetch_ytdlp_miss e st u = (Inr (Video r), st1)"
  shows "\<exists>ch0 url ch i resp.
           preprocess e u = Inr ch0 \<and> pop_url (geturl e u) ch0 = Inr (url, ch)
           \<and> extract_info e url = Inr i \<and> corrected_response ch i = Inr resp
           \<and> normalize e resp = Inr r
           \<and> store_ytdlp (st\<lparr>calls := calls st @ [ExtractInfo url]\<rparr>) resp r = Inr st1"
  using assms
  by (auto simp: fetch_ytdlp_miss_def Let_def split: sum.splits prod.splits if_splits)

lemma fetch_ytdlp_miss_eval:
  "preprocess e u = Inr ch0 \<Longrightarrow> pop_url (geturl e u) ch0 = Inr (url, ch) \<Longrightarrow>
   extract_info e url = Inr i \<Longrightarrow> corrected_response ch i = Inr resp \<Longrightarrow>
   normalize e resp = Inr r \<Longrightarrow>
   store_ytdlp (st\<lparr>calls := calls st @ [ExtractInfo url]\<rparr>) resp r = Inr st1 \<Longrightarrow>
   fetch_ytdlp_miss e st u = (Inr (Video r), st1)"
  by (simp add: fetch_ytdlp_miss_def)

lemma store_ytdlp_result:
  assumes "store_ytdlp st resp r = Inr st1"
  shows "\<exists>d dc k. resp ''webpage_url_domain'' = Some (PStr d) \<and> ytdlp_cache st d = Some dc
           \<and> resp ''display_id'' = Some k
           \<and> st1 = st\<lparr>ytdlp_cache := (ytdlp_cache st)(d \<mapsto> dc(k \<mapsto> r))\<rparr>"
  using assms
  by (auto simp: store_ytdlp_def split: option.splits pyval.splits)

lemma store_ytdlp_eval:
  "resp ''webpage_url_domain'' = Some (PStr d) \<Longrightarrow> ytdlp_cache st d = Some dc \<Longrightarrow>
   resp ''display_id'' = Some k \<Longrightarrow>
   store_ytdlp st resp r = Inr (st\<lparr>ytdlp_cache := (ytdlp_cache st)(d \<mapsto> dc(k \<mapsto> r))\<rparr>)"
  by (simp add: store_ytdlp_def)

lemma ytdlp_response_miss:
  "preprocess e u = Inr ch0 \<Longrightarrow> pop_url (geturl e u) ch0 = Inr (url, ch) \<Longrightarrow>
   extract_info e url = Inr i \<Longrightarrow> ytdlp_response e u = corrected_response ch i"
  by (simp add: ytdlp_response_def)


lemma yt_second_request:
  assumes "fetch_youtube e st u = (Inr (Video r), st1)"
      and "extract_video_id e u' = extract_video_id e u"
  shows "fetch_youtube e st1 u' = (Inr (Video r), st1) \<and> length (calls st1) \<le> length (calls st) + 1"
proof -
  from fetch_youtube_video [OF assms(1)] obtain vid where
    v: "extract_video_id e u = Inr (Some vid)" "vid \<noteq> []" "yt_cache st1 vid = Some r"
    and c: "st1 = st \<or> calls st1 = calls st @ [VideosList vid]"
    by blast
  from v assms(2) have "fetch_youtube e st1 u' = (Inr (Video r), st1)"
    by (simp add: fetch_youtube_hit)
  moreover from c have "length (calls st1) \<le> length (calls st) + 1" by auto
  ultimately show ?thesis by simp
qed

lemma ytdlp_second_request:
  assumes first: "fetch_ytdlp e st u = (Inr (Video r), st1)"
      and key: "strip_subdomain (netloc u) = Inr nl" "ytdlp_video_id (path u) = Inr vid"
      and same: "\<forall>resp. ytdlp_response e u = Inr resp \<longrightarrow>
                   resp ''webpage_url_domain'' = Some (PStr nl)
                   \<and> resp ''display_id'' = Some (PStr vid)"
      and key': "strip_subdomain (netloc u') = Inr nl" "ytdlp_video_id (path u') = Inr vid"
  shows "fetch_ytdlp e st1 u' = (Inr (Video r), st1) \<and> length (calls st1) \<le> length (calls st) + 1"
proof -
  from fetch_ytdlp_video [OF first] key obtain dc where
    acc: "nl \<in> set accepted_domains" and dc: "ytdlp_cache st nl = Some dc"
    and c: "(dc (PStr vid) = Some r \<and> st1 = st)
            \<or> (dc (PStr vid) = None \<and> fetch_ytdlp_miss e st u = (Inr (Video r), st1))"
    by auto
  from c show ?thesis
  proof
    assume "dc (PStr vid) = Some r \<and> st1 = st"
    then show ?thesis using acc dc key' by (simp add: fetch_ytdlp_hit)
  next
    assume "dc (PStr vid) = None \<and> fetch_ytdlp_miss e st u = (Inr (Video r), st1)"
    then have miss: "fetch_ytdlp_miss e st u = (Inr (Video r), st1)" by simp
    from fetch_ytdlp_miss_video [OF miss] obtain ch0 url ch i resp where
      p: "preprocess e u = Inr ch0" "pop_url (geturl e u) ch0 = Inr (url, ch)"
         "extract_info e url = Inr i" "corrected_response ch i = Inr resp"
      and s: "store_ytdlp (st\<lparr>calls := calls st @ [ExtractInfo url]\<rparr>) resp r = Inr st1"
      by blast
    from p have "ytdlp_response e u = Inr resp" by (simp add: ytdlp_response_miss)
    with same have id: "resp ''webpage_url_domain'' = Some (PStr nl)"
      "resp ''display_id'' = Some (PStr vid)" by auto
    from store_ytdlp_result [OF s] id obtain dc' where
      st1: "st1 = st\<lparr>calls := calls st @ [ExtractInfo url],
                     ytdlp_cache := (ytdlp_cache st)(nl \<mapsto> dc'(PStr vid \<mapsto> r))\<rparr>"
      by auto
    then have "ytdlp_cache st1 nl = Some (dc'(PStr vid \<mapsto> r))" by simp
    then have "fetch_ytdlp e st1 u' = (Inr (Video r), st1)"
      using acc key' by (simp add: fetch_ytdlp_hit)
    moreover from st1 have "length (calls st1) \<le> length (calls st) + 1" by simp
    ultimately show ?thesis by simp
  qed
qed

lemma yt_typed:
  assumes "yt_cache_typed st" and "fetch_youtube e st u = (Inr (Video r), st')"
  shows "yt_record r \<and> yt_cache_typed st'"
proof -
  from fetch_youtube_video [OF assms(2)] obtain vid where
    c: "(st' = st \<and> yt_cache st vid = Some r)
        \<or> (yt_record r \<and> yt_cache st' = (yt_cache st)(vid \<mapsto> r))"
    by blast
  from c show ?thesis
  proof
    assume "st' = st \<and> yt_cache st vid = Some r"
    then show ?thesis using assms(1) by (auto simp: yt_cache_typed_def)
  next
    assume "yt_record r \<and> yt_cache st' = (yt_cache st)(vid \<mapsto> r)"
    then show ?thesis using assms(1) by (auto simp: yt_cache_typed_def)
  qed
qed

lemma parse_all_length: "parse_all e urls = Inr us \<Longrightarrow> length us = length urls"
  by (induction urls arbitrary: us) (auto split: sum.splits)

lemma fetch_all_length: "fetch_all e st us = (Inr rs, st') \<Longrightarrow> length rs = length us"
  by (induction us arbitrary: st rs st') (auto split: sum.splits prod.splits)

section \<open>Domains and corrections\<close>

lemma strip_subdomain_cases:
  assumes "strip_subdomain nl = Inr d"
  shows "nl = d \<or> (\<exists>a. CHR ''.'' \<notin> set a \<and> nl = a @ CHR ''.'' # d)"
proof (cases "py_find CHR ''.'' nl \<noteq> py_rfind CHR ''.'' nl")
  case False
  with assms show ?thesis by (simp add: strip_subdomain_def)
next
  case True
  then have dot: "CHR ''.'' \<in> set nl"
    by (cases "CHR ''.'' \<in> set nl") (simp_all add: py_find_def py_rfind_def)
  define a where "a = takeWhile (\<lambda>x. x \<noteq> CHR ''.'') nl"
  define b where "b = dropWhile (\<lambda>x. x \<noteq> CHR ''.'') nl"
  from dot have "b \<noteq> []" unfolding b_def by (simp add: dropWhile_eq_Nil_conv)
  moreover from this have "hd b = CHR ''.''"
    unfolding b_def using hd_dropWhile [of "\<lambda>x. x \<noteq> CHR ''.''" nl] by simp
  ultimately have b: "b = CHR ''.'' # drop 1 b" by (cases b) simp_all
  from True dot assms have d: "d = drop 1 b"
    by (simp add: strip_subdomain_def split_max1_def list_get_def b_def)
  have "CHR ''.'' \<notin> set a" unfolding a_def by (auto dest: set_takeWhileD)
  moreover have "nl = a @ b" unfolding a_def b_def by simp
  ultimately show ?thesis using b d by metis
qed

lemma site_of_sub:
  "CHR ''.'' \<notin> set a \<Longrightarrow> site_of (a @ CHR ''.'' # ''twitter.com'') = Inr ''twitter''"
  "CHR ''.'' \<notin> set a \<Longrightarrow> site_of (a @ CHR ''.'' # ''x.com'') = Inr ''x''"
  by (simp_all add: site_of_def split_chr_append list_get_def)

lemma site_twitter: "strip_subdomain nl = Inr ''twitter.com'' \<Longrightarrow> site_of nl = Inr ''twitter''"
  using strip_subdomain_cases [of nl "''twitter.com''"]
  by (auto simp: site_of_sub) (simp add: site_of_def list_get_def)

lemma site_x: "strip_subdomain nl = Inr ''x.com'' \<Longrightarrow> site_of nl = Inr ''x''"
  using strip_subdomain_cases [of nl "''x.com''"]
  by (auto simp: site_of_sub) (simp add: site_of_def list_get_def)

lemma preprocess_depth_twitter:
  "site_of (netloc u) = Inr ''twitter'' \<Longrightarrow>
   preprocess_depth (Suc n) e u =
     (case multi_video (geturl e u) of
        Inl err \<Rightarrow> Inl err
      | Inr True \<Rightarrow> Inr (twitter_changes e @ [(''duration'', CNone)])
      | Inr False \<Rightarrow> Inr (twitter_changes e))"
  by (simp add: twitter_changes_def split: sum.splits bool.splits)

lemma preprocess_depth_twitter_pos:
  "site_of (netloc u) = Inr ''twitter'' \<Longrightarrow> 0 < n \<Longrightarrow>
   preprocess_depth n e u =
     (case multi_video (geturl e u) of
        Inl err \<Rightarrow> Inl err
      | Inr True \<Rightarrow> Inr (twitter_changes e @ [(''duration'', CNone)])
      | Inr False \<Rightarrow> Inr (twitter_changes e))"
  by (cases n) (simp_all only: preprocess_depth_twitter)

lemma preprocess_twitter:
  "site_of (netloc u) = Inr ''twitter'' \<Longrightarrow>
   preprocess e u =
     (case multi_video (geturl e u) of
        Inl err \<Rightarrow> Inl err
      | Inr True \<Rightarrow> Inr (twitter_changes e @ [(''duration'', CNone)])
      | Inr False \<Rightarrow> Inr (twitter_changes e))"
  unfolding preprocess_def
  by (rule preprocess_depth_twitter_pos) (simp_all add: recursion_limit_def)

lemma preprocess_x:
  assumes "site_of (netloc u) = Inr ''x''"
      and "urlparse e (''https://twitter.com'' @ path u) = Inr t"
      and "site_of (netloc t) = Inr ''twitter''"
  shows "preprocess e u =
     (case preprocess e t of
        Inl err \<Rightarrow> Inl err
      | Inr ch \<Rightarrow> Inr (AList.update ''url'' (CStr (''https://twitter.com'' @ path u)) ch))"
proof -
  have inner: "preprocess_depth 999 e t = preprocess e t"
    using assms(3) by (simp add: preprocess_depth_twitter_pos preprocess_twitter)
  have "preprocess e u = preprocess_depth (Suc 999) e u"
    by (simp add: preprocess_def recursion_limit_def)
  also have "\<dots> =
     (case preprocess_depth 999 e t of
        Inl err \<Rightarrow> Inl err
      | Inr ch \<Rightarrow> Inr (AList.update ''url'' (CStr (''https://twitter.com'' @ path u)) ch))"
    by (subst preprocess_depth.simps(2)) (use assms(1,2) in \<open>simp add: Let_def cong: sum.case_cong\<close>)
  finally show ?thesis by (simp only: inner)
qed

lemma pop_url_none: "map_of ch ''url'' = None \<Longrightarrow> pop_url g ch = Inr (g, ch)"
  by (simp add: pop_url_def)

lemma pop_url_update:
  assumes "map_of ch ''url'' = None" and "nu \<noteq> []"
  shows "pop_url g (AList.update ''url'' (CStr nu) ch) = Inr (nu, ch)"
proof -
  from assms(1) have "''url'' \<notin> fst ` set ch" by (simp add: map_of_eq_None_iff)
  then have "AList.delete ''url'' (AList.update ''url'' (CStr nu) ch) = ch"
    by (simp add: AList.delete_update_same)
  then show ?thesis using assms(2) by (simp add: pop_url_def AList.update_conv')
qed

lemma twitter_changes_no_url:
  "map_of (twitter_changes e) ''url'' = None"
  "map_of (twitter_changes e @ [(''duration'', CNone)]) ''url'' = None"
  by (simp_all add: twitter_changes_def)

lemma twitter_title_eval:
  "vid ''title'' = Some (PStr t) \<Longrightarrow> vid ''uploader_id'' = Some (PStr uid) \<Longrightarrow>
   twitter_title e vid = Inr (PStr (''X post by '' @ uid @ '' ('' @ pseudonym t @ '')''))"
  by (simp add: twitter_title_def dict_get_def hash_str_val_def hash_str_chars py_str_def)


lemma accepted_x_twitter:
  "''x.com'' \<in> set accepted_domains" "''twitter.com'' \<in> set accepted_domains"
  "''vimeo.com'' \<in> set accepted_domains"
  by (simp_all add: accepted_domains_def)

lemma preprocess_twitter_cases:
  assumes "site_of (netloc u) = Inr ''twitter''" and "preprocess e u = Inr ch"
  shows "ch = twitter_changes e \<or> ch = twitter_changes e @ [(''duration'', CNone)]"
  using assms by (auto simp: preprocess_twitter split: sum.splits bool.splits)


lemma fetch_ytdlp_miss_calls:
  "preprocess e u = Inr ch0 \<Longrightarrow> pop_url (geturl e u) ch0 = Inr (url, ch) \<Longrightarrow>
   calls (snd (fetch_ytdlp_miss e st u)) = calls st @ [ExtractInfo url]"
  by (auto simp: fetch_ytdlp_miss_def Let_def store_ytdlp_def
      split: sum.splits option.splits pyval.splits)

lemma x_as_twitter:
  assumes x: "strip_subdomain (netloc u) = Inr ''x.com''"
      and p: "urlparse e (''https://twitter.com'' @ path u) = Inr t"
      and t: "strip_subdomain (netloc t) = Inr ''twitter.com''" "path t = path u"
             "geturl e t = ''https://twitter.com'' @ path u"
      and vid: "ytdlp_video_id (path u) = Inr vid"
      and miss: "ytdlp_cache st ''x.com'' = Some cx" "cx (PStr vid) = None"
                "ytdlp_cache st ''twitter.com'' = Some ct" "ct (PStr vid) = None"
  shows "fetch_ytdlp e st u = fetch_ytdlp e st t"
    and "preprocess e u =
           (case preprocess e t of
              Inl err \<Rightarrow> Inl err
            | Inr ch \<Rightarrow> Inr (AList.update ''url'' (CStr (''https://twitter.com'' @ path u)) ch))"
    and "preprocess e t = Inr ch \<Longrightarrow>
         calls (snd (fetch_ytdlp e st u)) = calls st @ [ExtractInfo (''https://twitter.com'' @ path u)]"
proof -
  define nu where "nu = ''https://twitter.com'' @ path u"
  have nu: "nu \<noteq> []" by (simp add: nu_def)
  from x have sx: "site_of (netloc u) = Inr ''x''" by (rule site_x)
  from t(1) have st: "site_of (netloc t) = Inr ''twitter''" by (rule site_twitter)
  show px: "preprocess e u =
           (case preprocess e t of
              Inl err \<Rightarrow> Inl err
            | Inr ch \<Rightarrow> Inr (AList.update ''url'' (CStr (''https://twitter.com'' @ path u)) ch))"
    using sx p st by (rule preprocess_x)
  have fu: "fetch_ytdlp e st u = fetch_ytdlp_miss e st u"
    using x accepted_x_twitter(1) vid miss(1,2) by (rule fetch_ytdlp_to_miss)
  have ft: "fetch_ytdlp e st t = fetch_ytdlp_miss e st t"
    using t(1) accepted_x_twitter(2) vid [folded t(2)] miss(3,4) by (rule fetch_ytdlp_to_miss)
  have pops: "\<And>c. preprocess e t = Inr c \<Longrightarrow>
           pop_url (geturl e u) (AList.update ''url'' (CStr nu) c) = Inr (nu, c)
           \<and> pop_url (geturl e t) c = Inr (nu, c)"
  proof -
    fix c assume "preprocess e t = Inr c"
    from preprocess_twitter_cases [OF st this] have "map_of c ''url'' = None"
      using twitter_changes_no_url by auto
    then show "pop_url (geturl e u) (AList.update ''url'' (CStr nu) c) = Inr (nu, c)
           \<and> pop_url (geturl e t) c = Inr (nu, c)"
      using nu t(3) by (simp add: pop_url_update pop_url_none nu_def)
  qed
  have "fetch_ytdlp_miss e st u = fetch_ytdlp_miss e st t"
  proof (cases "preprocess e t")
    case (Inl err)
    then show ?thesis using px by (simp add: fetch_ytdlp_miss_def)
  next
    case (Inr c)
    with px have "preprocess e u = Inr (AList.update ''url'' (CStr nu) c)" by (simp add: nu_def)
    then show ?thesis using Inr pops [OF Inr] by (simp add: fetch_ytdlp_miss_def)
  qed
  with fu ft show "fetch_ytdlp e st u = fetch_ytdlp e st t" by simp
  show "calls (snd (fetch_ytdlp e st u)) = calls st @ [ExtractInfo (''https://twitter.com'' @ path u)]"
    if c: "preprocess e t = Inr ch"
  proof -
    from px c have "preprocess e u = Inr (AList.update ''url'' (CStr nu) ch)" by (simp add: nu_def)
    moreover from pops [OF c]
    have "pop_url (geturl e u) (AList.update ''url'' (CStr nu) ch) = Inr (nu, ch)" by simp
    ultimately have "calls (snd (fetch_ytdlp_miss e st u)) = calls st @ [ExtractInfo nu]"
      by (rule fetch_ytdlp_miss_calls)
    then show ?thesis using fu by (simp add: nu_def)
  qed
qed

section \<open>Requests in the concrete environment\<close>

lemma fetch_youtube_invalid:
  "fetch_youtube e st u = (Inr (Invalid m), st') \<Longrightarrow>
   yt_cache st' = yt_cache st \<and> ytdlp_cache st' = ytdlp_cache st"
  by (auto simp: fetch_youtube_def Let_def split: sum.splits option.splits list.splits if_splits)

lemma fetch_ytdlp_miss_invalid:
  "fetch_ytdlp_miss e st u = (Inr (Invalid m), st') \<Longrightarrow>
   yt_cache st' = yt_cache st \<and> ytdlp_cache st' = ytdlp_cache st"
  by (auto simp: fetch_ytdlp_miss_def Let_def split: sum.splits prod.splits if_splits)

lemma fetch_ytdlp_invalid:
  "fetch_ytdlp e st u = (Inr (Invalid m), st') \<Longrightarrow>
   yt_cache st' = yt_cache st \<and> ytdlp_cache st' = ytdlp_cache st"
  by (auto simp: fetch_ytdlp_def dest: fetch_ytdlp_miss_invalid
      split: sum.splits option.splits if_splits)

lemma strip_subdomain_total: "\<exists>d. strip_subdomain nl = Inr d"
  by (cases "CHR ''.'' \<in> set nl")
     (simp_all add: strip_subdomain_def py_find_def py_rfind_def split_max1_def list_get_def)

lemma fetch_ytdlp_unaccepted:
  "strip_subdomain (netloc u) = Inr d \<Longrightarrow> d \<notin> set accepted_domains \<Longrightarrow>
   fetch_ytdlp e st u = (Inr (Invalid ''Url not from an accepted domain''), st)"
  by (simp add: fetch_ytdlp_def)

lemma mock_fields:
  "urlparse mock_env = mock_urlparse"
  "geturl mock_env = mock_geturl"
  "parse_qs mock_env = mock_parse_qs"
  "videos_list mock_env = mock_videos_list"
  "extract_info mock_env = mock_extract_info"
  "fromisoformat_timestamp mock_env ''2024-05-01T00:00:00+00:00'' = Inr 1714521600"
  "strptime_utc_timestamp mock_env ''20240501'' = Inr 1714521600"
  by (simp_all add: mock_env_def)

lemmas mock_eval = mock_fields mock_urlparse_def mock_geturl_def mock_parse_qs_def
  mock_videos_list_def mock_extract_info_def mock_item_def url_of_def startswith_def

lemma parse_example_org:
  "urlparse mock_env ''https://example.org/video/1'' = Inr (url_of ''example.org'' ''/video/1'')"
  by (simp add: mock_eval)

lemma strip_example_org: "strip_subdomain ''example.org'' = Inr ''example.org''"
  by (simp add: strip_subdomain_def py_find_def py_rfind_def)

lemma example_org_rejected:
  "fetch_ytdlp e st (url_of ''example.org'' ''/video/1'')
   = (Inr (Invalid ''Url not from an accepted domain''), st)"
  by (rule fetch_ytdlp_unaccepted [where d = "''example.org''"])
     (simp_all add: url_of_def strip_example_org accepted_domains_def)

lemma update_example_org:
  "update_item mock_env st [''https://example.org/video/1'']
   = (Inr [Invalid ''Url not from an accepted domain''], st)"
  by (simp add: update_item_def parse_example_org fetch_one_def example_org_rejected)
     (simp add: url_of_def youtube_domains_def)

lemma watch_raises:
  "fetch_youtube mock_env st (url_of ''www.youtube.com'' ''/watch'') = (Inl KeyError, st)"
  by (simp add: fetch_youtube_def extract_video_id_def mock_eval)

lemma watch_matches_shortened: "re_match_id ''/'' ''/watch'' = Some ''watch''"
  by (simp add: re_match_id_def startswith_def id_char_def)

lemma extract_abc: "extract_video_id mock_env (url_of ''youtu.be'' ''/abc'') = Inr (Some ''abc'')"
  by (simp add: extract_video_id_def mock_eval re_match_id_def id_char_def)

lemma extract_missing:
  "extract_video_id mock_env (url_of ''youtu.be'' ''/missing'') = Inr (Some ''missing'')"
  by (simp add: extract_video_id_def mock_eval re_match_id_def id_char_def)

lemma convert_mock_item: "convert_iso8601_duration_to_seconds ''PT1H2M3S'' = Inr 3723"
  by (simp add: convert_eval)

lemma yt_abc_miss:
  "yt_cache st ''abc'' = None \<Longrightarrow>
   fetch_youtube mock_env st (url_of ''youtu.be'' ''/abc'')
   = (Inr (Video abc_record),
      st\<lparr>calls := calls st @ [VideosList ''abc''], yt_cache := (yt_cache st)(''abc'' \<mapsto> abc_record)\<rparr>)"
  by (simp add: fetch_youtube_def Let_def extract_abc convert_mock_item abc_record_def int_of_float_def
      mock_fields mock_videos_list_def mock_item_def)

lemma yt_missing:
  "yt_cache st ''missing'' = None \<Longrightarrow>
   fetch_youtube mock_env st (url_of ''youtu.be'' ''/missing'')
   = (Inr (Invalid ''Url doesn't point to a video''), st\<lparr>calls := calls st @ [VideosList ''missing'']\<rparr>)"
  by (simp add: fetch_youtube_def extract_missing mock_fields mock_videos_list_def)

lemma parse_https:
  "urlparse mock_env ''https://youtu.be/abc'' = Inr (url_of ''youtu.be'' ''/abc'')"
  "urlparse mock_env ''https://youtu.be/missing'' = Inr (url_of ''youtu.be'' ''/missing'')"
  "urlparse mock_env ''https://www.youtube.com/watch'' = Inr (url_of ''www.youtube.com'' ''/watch'')"
  "urlparse mock_env ''https://vimeo.com/12345'' = Inr (url_of ''vimeo.com'' ''/12345'')"
  "urlparse mock_env ''https://twitter.com/abc/status/123''
   = Inr (url_of ''twitter.com'' ''/abc/status/123'')"
  "urlparse mock_env ''https://twitter.com/abc/status/123/video/2''
   = Inr (url_of ''twitter.com'' ''/abc/status/123/video/2'')"
  "urlparse mock_env ''https://x.com/abc/status/123'' = Inr (url_of ''x.com'' ''/abc/status/123'')"
  by (simp_all add: mock_eval)

lemma fetch_one_youtube:
  "fetch_one e st (url_of ''youtu.be'' p) = fetch_youtube e st (url_of ''youtu.be'' p)"
  "fetch_one e st (url_of ''www.youtube.com'' p) = fetch_youtube e st (url_of ''www.youtube.com'' p)"
  by (simp_all add: fetch_one_def url_of_def youtube_domains_def)

lemma fetch_one_other:
  "fetch_one e st (url_of ''vimeo.com'' p) = fetch_ytdlp e st (url_of ''vimeo.com'' p)"
  "fetch_one e st (url_of ''twitter.com'' p) = fetch_ytdlp e st (url_of ''twitter.com'' p)"
  "fetch_one e st (url_of ''x.com'' p) = fetch_ytdlp e st (url_of ''x.com'' p)"
  "fetch_one e st (url_of ''example.org'' p) = fetch_ytdlp e st (url_of ''example.org'' p)"
  by (simp_all add: fetch_one_def url_of_def youtube_domains_def)

lemma init_caches:
  "yt_cache init_state = Map.empty"
  "calls init_state = []"
  "ytdlp_cache init_state ''vimeo.com'' = Some Map.empty"
  "ytdlp_cache init_state ''twitter.com'' = Some Map.empty"
  "ytdlp_cache init_state ''x.com'' = Some Map.empty"
  by (simp_all add: init_state_def accepted_domains_def)

lemma strip_mock:
  "strip_subdomain ''vimeo.com'' = Inr ''vimeo.com''"
  "strip_subdomain ''twitter.com'' = Inr ''twitter.com''"
  "strip_subdomain ''x.com'' = Inr ''x.com''"
  by (simp_all add: strip_subdomain_def py_find_def py_rfind_def)

lemma video_id_mock:
  "ytdlp_video_id ''/12345'' = Inr ''12345''"
  "ytdlp_video_id ''/abc/status/123'' = Inr ''123''"
  "ytdlp_video_id ''/abc/status/123/video/2'' = Inr ''2''"
  by (simp_all add: ytdlp_video_id_def list_get_def rstrip_chr_def)

lemma url_of_sel: "netloc (url_of nl p) = nl" "path (url_of nl p) = p" "query (url_of nl p) = []"
  by (simp_all add: url_of_def)

lemma geturl_mock: "geturl mock_env (url_of nl p) = ''https://'' @ nl @ p"
  by (simp add: mock_fields mock_geturl_def url_of_def)

lemma multi_video_mock:
  "multi_video ''https://twitter.com/abc/status/123'' = Inr False"
  "multi_video ''https://twitter.com/abc/status/123/video/2'' = Inr True"
  by (simp_all add: multi_video_def py_rfind_def slice_to_def slice_from_def endswith_def
      py_int_def is_space_def is_digit_def dec_val_def digit_val_def int_max_str_digits_def)

lemma preprocess_vimeo: "preprocess mock_env (url_of ''vimeo.com'' p) = Inr []"
proof -
  have "preprocess mock_env (url_of ''vimeo.com'' p)
        = preprocess_depth (Suc 999) mock_env (url_of ''vimeo.com'' p)"
    by (simp add: preprocess_def recursion_limit_def)
  also have "\<dots> = Inr []"
    by (subst preprocess_depth.simps(2)) (simp add: url_of_sel site_of_def list_get_def)
  finally show ?thesis .
qed

lemma preprocess_tweet:
  "preprocess mock_env (url_of ''twitter.com'' ''/abc/status/123'') = Inr (twitter_changes mock_env)"
  "preprocess mock_env (url_of ''twitter.com'' ''/abc/status/123/video/2'')
   = Inr (twitter_changes mock_env @ [(''duration'', CNone)])"
  by (simp_all add: preprocess_twitter site_twitter url_of_sel strip_mock geturl_mock
      multi_video_mock)

lemma preprocess_x_tweet:
  "preprocess mock_env (url_of ''x.com'' ''/abc/status/123'')
   = Inr (AList.update ''url'' (CStr ''https://twitter.com/abc/status/123'') (twitter_changes mock_env))"
proof -
  have "preprocess mock_env (url_of ''x.com'' ''/abc/status/123'') =
     (case preprocess mock_env (url_of ''twitter.com'' ''/abc/status/123'') of
        Inl err \<Rightarrow> Inl err
      | Inr ch \<Rightarrow>
          Inr (AList.update ''url''
                 (CStr (''https://twitter.com'' @ path (url_of ''x.com'' ''/abc/status/123''))) ch))"
    by (rule preprocess_x)
       (simp_all add: site_x site_twitter url_of_sel strip_mock parse_https)
  then show ?thesis by (simp add: preprocess_tweet url_of_sel)
qed

lemma extract_mock:
  "extract_info mock_env ''https://vimeo.com/12345'' = Inr \<lparr>info_fields = clip, info_entries = None\<rparr>"
  "extract_info mock_env ''https://twitter.com/abc/status/123''
   = Inr \<lparr>info_fields = tweet, info_entries = None\<rparr>"
  "extract_info mock_env ''https://twitter.com/abc/status/123/video/2''
   = Inr \<lparr>info_fields = tweet, info_entries = None\<rparr>"
  by (simp_all add: mock_fields mock_extract_info_def)

lemma first_entry_plain: "first_entry \<lparr>info_fields = f, info_entries = None\<rparr> = Inr f"
  by (simp add: first_entry_def)

lemma normalize_clip: "normalize mock_env clip = Inr clip_record"
  by (simp add: normalize_def upload_timestamp_def dict_get_def clip_def clip_record_def mock_fields)

lemma twitter_title_tweet:
  "twitter_title mock_env (tweet(''channel'' \<mapsto> PStr ''abc'')) = Inr (PStr ''X post by abc (2cf24)'')"
  using twitter_title_eval [of "tweet(''channel'' \<mapsto> PStr ''abc'')" "''hello''" "''abc''" mock_env]
  by (simp add: tweet_def pseudonym_hello)

lemma apply_tweet:
  "apply_changes (twitter_changes mock_env) tweet = Inr tweet_corrected"
  "apply_changes (twitter_changes mock_env @ [(''duration'', CNone)]) tweet
   = Inr (tweet_corrected(''duration'' \<mapsto> PNone))"
proof -
  have ch: "dict_get tweet ''uploader_id'' = PStr ''abc''" by (simp add: dict_get_def tweet_def)
  show "apply_changes (twitter_changes mock_env) tweet = Inr tweet_corrected"
    by (simp add: twitter_changes_def ch twitter_title_tweet tweet_corrected_def)
  show "apply_changes (twitter_changes mock_env @ [(''duration'', CNone)]) tweet
        = Inr (tweet_corrected(''duration'' \<mapsto> PNone))"
    by (simp add: twitter_changes_def ch twitter_title_tweet tweet_corrected_def)
qed

lemma normalize_tweet:
  "normalize mock_env tweet_corrected = Inr tweet_record"
  "normalize mock_env (tweet_corrected(''duration'' \<mapsto> PNone)) = Inr (tweet_record\<lparr>duration := PNone\<rparr>)"
  by (simp_all add: normalize_def upload_timestamp_def dict_get_def tweet_corrected_def tweet_def
      tweet_record_def mock_fields)

lemma tweet_corrected_keys:
  "tweet_corrected ''webpage_url_domain'' = Some (PStr ''twitter.com'')"
  "tweet_corrected ''display_id'' = Some (PStr ''123'')"
  "(tweet_corrected(''duration'' \<mapsto> PNone)) ''webpage_url_domain'' = Some (PStr ''twitter.com'')"
  "(tweet_corrected(''duration'' \<mapsto> PNone)) ''display_id'' = Some (PStr ''123'')"
  by (simp_all add: tweet_corrected_def tweet_def)

lemma clip_keys:
  "clip ''webpage_url_domain'' = Some (PStr ''vimeo.com'')"
  "clip ''display_id'' = Some (PStr ''12345'')"
  by (simp_all add: clip_def)

lemma vimeo_miss:
  assumes "ytdlp_cache st ''vimeo.com'' = Some dc"
  shows "fetch_ytdlp_miss mock_env st (url_of ''vimeo.com'' ''/12345'')
   = (Inr (Video clip_record),
      st\<lparr>calls := calls st @ [ExtractInfo ''https://vimeo.com/12345''],
         ytdlp_cache := (ytdlp_cache st)(''vimeo.com'' \<mapsto> dc(PStr ''12345'' \<mapsto> clip_record))\<rparr>)"
proof (rule fetch_ytdlp_miss_eval)
  show "preprocess mock_env (url_of ''vimeo.com'' ''/12345'') = Inr []" by (rule preprocess_vimeo)
  show "pop_url (geturl mock_env (url_of ''vimeo.com'' ''/12345'')) []
        = Inr (''https://vimeo.com/12345'', [])"
    by (simp add: pop_url_def geturl_mock)
  show "extract_info mock_env ''https://vimeo.com/12345''
        = Inr \<lparr>info_fields = clip, info_entries = None\<rparr>" by (rule extract_mock)
  show "corrected_response [] \<lparr>info_fields = clip, info_entries = None\<rparr> = Inr clip"
    by (simp add: corrected_response_def first_entry_plain)
  show "normalize mock_env clip = Inr clip_record" by (rule normalize_clip)
  show "store_ytdlp (st\<lparr>calls := calls st @ [ExtractInfo ''https://vimeo.com/12345'']\<rparr>) clip clip_record
        = Inr (st\<lparr>calls := calls st @ [ExtractInfo ''https://vimeo.com/12345''],
         ytdlp_cache := (ytdlp_cache st)(''vimeo.com'' \<mapsto> dc(PStr ''12345'' \<mapsto> clip_record))\<rparr>)"
    using assms by (simp add: store_ytdlp_def clip_keys)
qed

lemma tweet_miss:
  assumes "ytdlp_cache st ''twitter.com'' = Some dc"
  shows "fetch_ytdlp_miss mock_env st (url_of ''twitter.com'' ''/abc/status/123'')
   = (Inr (Video tweet_record),
      st\<lparr>calls := calls st @ [ExtractInfo ''https://twitter.com/abc/status/123''],
         ytdlp_cache := (ytdlp_cache st)(''twitter.com'' \<mapsto> dc(PStr ''123'' \<mapsto> tweet_record))\<rparr>)"
proof (rule fetch_ytdlp_miss_eval)
  show "preprocess mock_env (url_of ''twitter.com'' ''/abc/status/123'') = Inr (twitter_changes mock_env)"
    by (rule preprocess_tweet)
  show "pop_url (geturl mock_env (url_of ''twitter.com'' ''/abc/status/123'')) (twitter_changes mock_env)
        = Inr (''https://twitter.com/abc/status/123'', twitter_changes mock_env)"
    by (simp add: pop_url_none twitter_changes_no_url geturl_mock)
  show "extract_info mock_env ''https://twitter.com/abc/status/123''
        = Inr \<lparr>info_fields = tweet, info_entries = None\<rparr>" by (rule extract_mock)
  show "corrected_response (twitter_changes mock_env) \<lparr>info_fields = tweet, info_entries = None\<rparr>
        = Inr tweet_corrected"
    by (simp add: corrected_response_def first_entry_plain apply_tweet)
  show "normalize mock_env tweet_corrected = Inr tweet_record" by (rule normalize_tweet)
  show "store_ytdlp (st\<lparr>calls := calls st @ [ExtractInfo ''https://twitter.com/abc/status/123'']\<rparr>)
          tweet_corrected tweet_record
        = Inr (st\<lparr>calls := calls st @ [ExtractInfo ''https://twitter.com/abc/status/123''],
         ytdlp_cache := (ytdlp_cache st)(''twitter.com'' \<mapsto> dc(PStr ''123'' \<mapsto> tweet_record))\<rparr>)"
    using assms by (simp add: store_ytdlp_def tweet_corrected_keys)
qed

lemma tweet_video2_miss:
  assumes "ytdlp_cache st ''twitter.com'' = Some dc"
  shows "fetch_ytdlp_miss mock_env st (url_of ''twitter.com'' ''/abc/status/123/video/2'')
   = (Inr (Video (tweet_record\<lparr>duration := PNone\<rparr>)),
      st\<lparr>calls := calls st @ [ExtractInfo ''https://twitter.com/abc/status/123/video/2''],
         ytdlp_cache := (ytdlp_cache st)
            (''twitter.com'' \<mapsto> dc(PStr ''123'' \<mapsto> tweet_record\<lparr>duration := PNone\<rparr>))\<rparr>)"
proof (rule fetch_ytdlp_miss_eval)
  show "preprocess mock_env (url_of ''twitter.com'' ''/abc/status/123/video/2'')
        = Inr (twitter_changes mock_env @ [(''duration'', CNone)])"
    by (rule preprocess_tweet)
  show "pop_url (geturl mock_env (url_of ''twitter.com'' ''/abc/status/123/video/2''))
          (twitter_changes mock_env @ [(''duration'', CNone)])
        = Inr (''https://twitter.com/abc/status/123/video/2'',
               twitter_changes mock_env @ [(''duration'', CNone)])"
    by (simp add: pop_url_none twitter_changes_no_url geturl_mock)
  show "extract_info mock_env ''https://twitter.com/abc/status/123/video/2''
        = Inr \<lparr>info_fields = tweet, info_entries = None\<rparr>" by (rule extract_mock)
  show "corrected_response (twitter_changes mock_env @ [(''duration'', CNone)])
          \<lparr>info_fields = tweet, info_entries = None\<rparr>
        = Inr (tweet_corrected(''duration'' \<mapsto> PNone))"
    by (simp add: corrected_response_def first_entry_plain apply_tweet)
  show "normalize mock_env (tweet_corrected(''duration'' \<mapsto> PNone)) = Inr (tweet_record\<lparr>duration := PNone\<rparr>)"
    by (rule normalize_tweet)
  show "store_ytdlp (st\<lparr>calls := calls st @ [ExtractInfo ''https://twitter.com/abc/status/123/video/2'']\<rparr>)
          (tweet_corrected(''duration'' \<mapsto> PNone)) (tweet_record\<lparr>duration := PNone\<rparr>)
        = Inr (st\<lparr>calls := calls st @ [ExtractInfo ''https://twitter.com/abc/status/123/video/2''],
         ytdlp_cache := (ytdlp_cache st)
            (''twitter.com'' \<mapsto> dc(PStr ''123'' \<mapsto> tweet_record\<lparr>duration := PNone\<rparr>))\<rparr>)"
    using assms by (simp add: store_ytdlp_def tweet_corrected_keys)
qed

lemma x_tweet_miss:
  assumes "ytdlp_cache st ''twitter.com'' = Some dc"
  shows "fetch_ytdlp_miss mock_env st (url_of ''x.com'' ''/abc/status/123'')
   = (Inr (Video tweet_record),
      st\<lparr>calls := calls st @ [ExtractInfo ''https://twitter.com/abc/status/123''],
         ytdlp_cache := (ytdlp_cache st)(''twitter.com'' \<mapsto> dc(PStr ''123'' \<mapsto> tweet_record))\<rparr>)"
proof (rule fetch_ytdlp_miss_eval)
  show "preprocess mock_env (url_of ''x.com'' ''/abc/status/123'')
        = Inr (AList.update ''url'' (CStr ''https://twitter.com/abc/status/123'') (twitter_changes mock_env))"
    by (rule preprocess_x_tweet)
  show "pop_url (geturl mock_env (url_of ''x.com'' ''/abc/status/123''))
          (AList.update ''url'' (CStr ''https://twitter.com/abc/status/123'') (twitter_changes mock_env))
        = Inr (''https://twitter.com/abc/status/123'', twitter_changes mock_env)"
    by (rule pop_url_update) (simp_all add: twitter_changes_no_url)
  show "extract_info mock_env ''https://twitter.com/abc/status/123''
        = Inr \<lparr>info_fields = tweet, info_entries = None\<rparr>" by (rule extract_mock)
  show "corrected_response (twitter_changes mock_env) \<lparr>info_fields = tweet, info_entries = None\<rparr>
        = Inr tweet_corrected"
    by (simp add: corrected_response_def first_entry_plain apply_tweet)
  show "normalize mock_env tweet_corrected = Inr tweet_record" by (rule normalize_tweet)
  show "store_ytdlp (st\<lparr>calls := calls st @ [ExtractInfo ''https://twitter.com/abc/status/123'']\<rparr>)
          tweet_corrected tweet_record
        = Inr (st\<lparr>calls := calls st @ [ExtractInfo ''https://twitter.com/abc/status/123''],
         ytdlp_cache := (ytdlp_cache st)(''twitter.com'' \<mapsto> dc(PStr ''123'' \<mapsto> tweet_record))\<rparr>)"
    using assms by (simp add: store_ytdlp_def tweet_corrected_keys)
qed

lemma mock_to_miss:
  "strip_subdomain nl = Inr nl \<Longrightarrow> nl \<in> set accepted_domains \<Longrightarrow> ytdlp_video_id p = Inr vid \<Longrightarrow>
   ytdlp_cache st nl = Some dc \<Longrightarrow> dc (PStr vid) = None \<Longrightarrow>
   fetch_ytdlp e st (url_of nl p) = fetch_ytdlp_miss e st (url_of nl p)"
  by (rule fetch_ytdlp_to_miss [where nl = nl and vid = vid and dc = dc]) (simp_all add: url_of_sel)

lemma init_miss:
  "fetch_ytdlp mock_env init_state (url_of ''twitter.com'' ''/abc/status/123'')
   = fetch_ytdlp_miss mock_env init_state (url_of ''twitter.com'' ''/abc/status/123'')"
  "fetch_ytdlp mock_env init_state (url_of ''twitter.com'' ''/abc/status/123/video/2'')
   = fetch_ytdlp_miss mock_env init_state (url_of ''twitter.com'' ''/abc/status/123/video/2'')"
  "fetch_ytdlp mock_env init_state (url_of ''x.com'' ''/abc/status/123'')
   = fetch_ytdlp_miss mock_env init_state (url_of ''x.com'' ''/abc/status/123'')"
  "fetch_ytdlp mock_env init_state (url_of ''vimeo.com'' ''/12345'')
   = fetch_ytdlp_miss mock_env init_state (url_of ''vimeo.com'' ''/12345'')"
proof -
  show "fetch_ytdlp mock_env init_state (url_of ''twitter.com'' ''/abc/status/123'')
   = fetch_ytdlp_miss mock_env init_state (url_of ''twitter.com'' ''/abc/status/123'')"
    by (rule mock_to_miss [where dc = Map.empty])
       (simp_all add: strip_mock video_id_mock accepted_x_twitter init_caches)
  show "fetch_ytdlp mock_env init_state (url_of ''twitter.com'' ''/abc/status/123/video/2'')
   = fetch_ytdlp_miss mock_env init_state (url_of ''twitter.com'' ''/abc/status/123/video/2'')"
    by (rule mock_to_miss [where dc = Map.empty])
       (simp_all add: strip_mock video_id_mock accepted_x_twitter init_caches)
  show "fetch_ytdlp mock_env init_state (url_of ''x.com'' ''/abc/status/123'')
   = fetch_ytdlp_miss mock_env init_state (url_of ''x.com'' ''/abc/status/123'')"
    by (rule mock_to_miss [where dc = Map.empty])
       (simp_all add: strip_mock video_id_mock accepted_x_twitter init_caches)
  show "fetch_ytdlp mock_env init_state (url_of ''vimeo.com'' ''/12345'')
   = fetch_ytdlp_miss mock_env init_state (url_of ''vimeo.com'' ''/12345'')"
    by (rule mock_to_miss [where dc = Map.empty])
       (simp_all add: strip_mock video_id_mock accepted_x_twitter init_caches)
qed

lemma tweet_from_init:
  "fetch_ytdlp mock_env init_state (url_of ''twitter.com'' ''/abc/status/123'')
   = (Inr (Video tweet_record), after_tweet)"
  by (simp add: init_miss tweet_miss [OF init_caches(4)] init_caches after_tweet_def)

lemma video2_from_init:
  "fetch_ytdlp mock_env init_state (url_of ''twitter.com'' ''/abc/status/123/video/2'')
   = (Inr (Video (tweet_record\<lparr>duration := PNone\<rparr>)), after_video2)"
  by (simp add: init_miss tweet_video2_miss [OF init_caches(4)] init_caches after_video2_def)

lemma clip_from_init:
  "fetch_ytdlp mock_env init_state (url_of ''vimeo.com'' ''/12345'')
   = (Inr (Video clip_record), after_clip)"
  by (simp add: init_miss vimeo_miss [OF init_caches(3)] init_caches after_clip_def)

lemma after_video2_caches:
  "ytdlp_cache after_video2 ''twitter.com'' = Some [PStr ''123'' \<mapsto> tweet_record\<lparr>duration := PNone\<rparr>]"
  "ytdlp_cache after_video2 ''x.com'' = Some Map.empty"
  by (simp_all add: after_video2_def init_caches)

lemma init_typed: "yt_cache_typed init_state"
  by (simp add: yt_cache_typed_def init_state_def)

lemma vimeo_same_identity:
  "strip_subdomain (netloc (url_of ''www.vimeo.com'' ''/12345/'')) = Inr ''vimeo.com''"
  "ytdlp_video_id (path (url_of ''www.vimeo.com'' ''/12345/'')) = Inr ''12345''"
  by (simp_all add: url_of_sel strip_subdomain_def py_find_def py_rfind_def split_max1_def
      list_get_def ytdlp_video_id_def rstrip_chr_def)

lemma vimeo_response: "ytdlp_response mock_env (url_of ''vimeo.com'' ''/12345'') = Inr clip"
  by (simp add: ytdlp_response_def preprocess_vimeo pop_url_def geturl_mock extract_mock
      corrected_response_def first_entry_plain)

lemma batch_of_three:
  "update_item mock_env init_state
     [''https://youtu.be/abc'', ''https://example.org/video/1'', ''https://vimeo.com/12345'']
   = (Inr [Video abc_record, Invalid ''Url not from an accepted domain'', Video clip_record],
      init_state\<lparr>calls := [VideosList ''abc'', ExtractInfo ''https://vimeo.com/12345''],
                 yt_cache := [''abc'' \<mapsto> abc_record],
                 ytdlp_cache := (ytdlp_cache init_state)
                    (''vimeo.com'' \<mapsto> [PStr ''12345'' \<mapsto> clip_record])\<rparr>)"
proof -
  let ?s1 = "init_state\<lparr>calls := [VideosList ''abc''], yt_cache := [''abc'' \<mapsto> abc_record]\<rparr>"
  have c: "ytdlp_cache ?s1 ''vimeo.com'' = Some Map.empty" by (simp add: init_caches)
  have "fetch_ytdlp mock_env ?s1 (url_of ''vimeo.com'' ''/12345'')
        = fetch_ytdlp_miss mock_env ?s1 (url_of ''vimeo.com'' ''/12345'')"
    by (rule mock_to_miss [where dc = Map.empty])
       (simp_all add: strip_mock video_id_mock accepted_x_twitter init_caches)
  then show ?thesis
    by (simp add: update_item_def parse_https parse_example_org fetch_one_youtube fetch_one_other
        yt_abc_miss init_caches example_org_rejected vimeo_miss [OF c])
qed

section \<open>The batch, rejections and the caches\<close>

text \<open>
  C1: the batch operation is claimed to return one result per input URL, a failure on one
  URL never preventing the results of the others. The code departs from it: a URL of the
  YouTube family with the path \<^verbatim>\<open>/watch\<close> and no \<^verbatim>\<open>v\<close> parameter makes
  \<^verbatim>\<open>extract_video_id\<close> raise \<^verbatim>\<open>KeyError\<close>, which nothing catches, so a batch of three URLs
  whose second is such a URL returns no list at all.
\<close>

theorem batch_aborts:
  "fst (update_item mock_env init_state
          [''https://youtu.be/abc'', ''https://www.youtube.com/watch'', ''https://vimeo.com/12345''])
   = Inl KeyError"
  by (simp add: update_item_def parse_https fetch_one_youtube yt_abc_miss init_caches watch_raises)

text \<open>
  C3: a URL of the YouTube family on which none of the three patterns yields an id (the
  \<^verbatim>\<open>v\<close> parameter on the path \<^verbatim>\<open>/watch\<close>, the pattern \<^verbatim>\<open>^/live/([a-zA-Z0-9_-]+)\<close>, the
  pattern \<^verbatim>\<open>^/([a-zA-Z0-9_-]+)\<close>) has a path other than \<^verbatim>\<open>/watch\<close>;
  \<^verbatim>\<open>extract_video_id\<close> returns \<^verbatim>\<open>None\<close> without raising, \<^verbatim>\<open>fetch_youtube\<close> returns the
  rejection \<^verbatim>\<open>{"Invalid": "No video id present"}\<close> and leaves the state as it was, and in a
  batch the item takes that rejection and the remaining URLs are processed.
\<close>

theorem no_video_id_rejected:
  assumes "\<not> (path u = ''/watch'' \<and> (\<exists>v vs. parse_qs e (query u) ''v'' = Some (v # vs)))"
      and "re_match_id ''/live/'' (path u) = None"
      and "re_match_id ''/'' (path u) = None"
  shows "path u \<noteq> ''/watch''
         \<and> extract_video_id e u = Inr None
         \<and> fetch_youtube e st u = (Inr (Invalid ''No video id present''), st)
         \<and> (netloc u \<in> set youtube_domains \<longrightarrow>
              fetch_all e st (u # us) =
                (case fetch_all e st us of
                   (Inl err, st2) \<Rightarrow> (Inl err, st2)
                 | (Inr rs, st2) \<Rightarrow> (Inr (Invalid ''No video id present'' # rs), st2)))"
proof -
  from assms(3) watch_matches_shortened have p: "path u \<noteq> ''/watch''" by auto
  with assms(2,3) have x: "extract_video_id e u = Inr None"
    by (simp add: extract_video_id_def)
  then have f: "fetch_youtube e st u = (Inr (Invalid ''No video id present''), st)"
    by (simp add: fetch_youtube_def)
  then have "netloc u \<in> set youtube_domains \<longrightarrow>
              fetch_all e st (u # us) =
                (case fetch_all e st us of
                   (Inl err, st2) \<Rightarrow> (Inl err, st2)
                 | (Inr rs, st2) \<Rightarrow> (Inr (Invalid ''No video id present'' # rs), st2))"
    by (simp add: fetch_one_def split: prod.splits sum.splits)
  with p x f show ?thesis by simp
qed

theorem no_video_id_rejected_witness:
  "\<not> (path (url_of ''www.youtube.com'' ''/@channel'') = ''/watch''
       \<and> (\<exists>v vs. parse_qs mock_env (query (url_of ''www.youtube.com'' ''/@channel'')) ''v''
                   = Some (v # vs)))
   \<and> re_match_id ''/live/'' (path (url_of ''www.youtube.com'' ''/@channel'')) = None
   \<and> re_match_id ''/'' (path (url_of ''www.youtube.com'' ''/@channel'')) = None
   \<and> netloc (url_of ''www.youtube.com'' ''/@channel'') \<in> set youtube_domains
   \<and> extract_video_id mock_env (url_of ''www.youtube.com'' ''/@channel'') = Inr None
   \<and> fetch_youtube mock_env init_state (url_of ''www.youtube.com'' ''/@channel'')
       = (Inr (Invalid ''No video id present''), init_state)
   \<and> fetch_all mock_env init_state
         [url_of ''www.youtube.com'' ''/@channel'', url_of ''youtu.be'' ''/abc'']
       = (Inr [Invalid ''No video id present'', Video abc_record],
          init_state\<lparr>calls := [VideosList ''abc''], yt_cache := [''abc'' \<mapsto> abc_record]\<rparr>)"
proof -
  have h: "\<not> (path (url_of ''www.youtube.com'' ''/@channel'') = ''/watch''
       \<and> (\<exists>v vs. parse_qs mock_env (query (url_of ''www.youtube.com'' ''/@channel'')) ''v''
                   = Some (v # vs)))"
    "re_match_id ''/live/'' (path (url_of ''www.youtube.com'' ''/@channel'')) = None"
    "re_match_id ''/'' (path (url_of ''www.youtube.com'' ''/@channel'')) = None"
    by (simp_all add: url_of_sel re_match_id_def startswith_def id_char_def)
  have d: "netloc (url_of ''www.youtube.com'' ''/@channel'') \<in> set youtube_domains"
    by (simp add: url_of_sel youtube_domains_def)
  have r: "fetch_all mock_env init_state [url_of ''youtu.be'' ''/abc'']
           = (Inr [Video abc_record],
              init_state\<lparr>calls := [VideosList ''abc''], yt_cache := [''abc'' \<mapsto> abc_record]\<rparr>)"
    by (simp add: fetch_one_youtube yt_abc_miss init_caches)
  from no_video_id_rejected
         [OF h, of init_state "[url_of ''youtu.be'' ''/abc'']"] d
  have "extract_video_id mock_env (url_of ''www.youtube.com'' ''/@channel'') = Inr None"
    "fetch_youtube mock_env init_state (url_of ''www.youtube.com'' ''/@channel'')
       = (Inr (Invalid ''No video id present''), init_state)"
    "fetch_all mock_env init_state
         [url_of ''www.youtube.com'' ''/@channel'', url_of ''youtu.be'' ''/abc'']
       = (case fetch_all mock_env init_state [url_of ''youtu.be'' ''/abc''] of
            (Inl err, st2) \<Rightarrow> (Inl err, st2)
          | (Inr rs, st2) \<Rightarrow> (Inr (Invalid ''No video id present'' # rs), st2))"
    by blast+
  with h d show ?thesis by (simp only: r prod.case sum.case simp_thms)
qed

text \<open>
  C8, as amended: stripping the subdomain never raises, and for every URL whose normalized
  domain is not one of the ten accepted domains \<^verbatim>\<open>fetch_ytdlp\<close> returns the rejection
  \<^verbatim>\<open>{"Invalid": "Url not from an accepted domain"}\<close> without raising, calling the
  provider or changing a cache; in a batch the item takes that rejection and the remaining
  URLs are processed from the unchanged state. (The claim names the message
  \<^verbatim>\<open>"domain not accepted"\<close>, which the code never returns.)
\<close>

theorem unsupported_domain_rejected:
  "(\<exists>d'. strip_subdomain (netloc u) = Inr d')
   \<and> (strip_subdomain (netloc u) = Inr d \<and> d \<notin> set accepted_domains \<longrightarrow>
        fetch_ytdlp e st u = (Inr (Invalid ''Url not from an accepted domain''), st)
        \<and> (netloc u \<notin> set youtube_domains \<longrightarrow>
             fetch_all e st (u # us) =
               (case fetch_all e st us of
                  (Inl err, st2) \<Rightarrow> (Inl err, st2)
                | (Inr rs, st2) \<Rightarrow> (Inr (Invalid ''Url not from an accepted domain'' # rs), st2))))"
proof (intro conjI impI)
  show "\<exists>d'. strip_subdomain (netloc u) = Inr d'" by (rule strip_subdomain_total)
next
  assume a: "strip_subdomain (netloc u) = Inr d \<and> d \<notin> set accepted_domains"
  then show r: "fetch_ytdlp e st u = (Inr (Invalid ''Url not from an accepted domain''), st)"
    by (simp add: fetch_ytdlp_unaccepted)
  assume "netloc u \<notin> set youtube_domains"
  then show "fetch_all e st (u # us) =
               (case fetch_all e st us of
                  (Inl err, st2) \<Rightarrow> (Inl err, st2)
                | (Inr rs, st2) \<Rightarrow> (Inr (Invalid ''Url not from an accepted domain'' # rs), st2))"
    using r by (simp add: fetch_one_def split: prod.splits sum.splits)
qed

theorem unsupported_domain_rejected_witness:
  "strip_subdomain (netloc (url_of ''example.org'' ''/video/1'')) = Inr ''example.org''
   \<and> ''example.org'' \<notin> set accepted_domains
   \<and> netloc (url_of ''example.org'' ''/video/1'') \<notin> set youtube_domains
   \<and> fetch_ytdlp mock_env init_state (url_of ''example.org'' ''/video/1'')
       = (Inr (Invalid ''Url not from an accepted domain''), init_state)
   \<and> fetch_all mock_env init_state [url_of ''example.org'' ''/video/1'']
       = (Inr [Invalid ''Url not from an accepted domain''], init_state)"
proof -
  have h: "strip_subdomain (netloc (url_of ''example.org'' ''/video/1'')) = Inr ''example.org''"
    "''example.org'' \<notin> set accepted_domains"
    "netloc (url_of ''example.org'' ''/video/1'') \<notin> set youtube_domains"
    by (simp_all add: url_of_sel strip_example_org accepted_domains_def youtube_domains_def)
  with unsupported_domain_rejected
         [of "url_of ''example.org'' ''/video/1''" "''example.org''" mock_env init_state "[]"]
  show ?thesis by simp
qed

theorem domain_message_counterexample:
  "fst (update_item mock_env init_state [''https://example.org/video/1''])
     = Inr [Invalid ''Url not from an accepted domain'']
   \<and> fst (update_item mock_env init_state [''https://example.org/video/1''])
     \<noteq> Inr [Invalid ''domain not accepted'']"
  by (simp add: update_example_org)

text \<open>
  C10: whenever \<^verbatim>\<open>fetch_youtube\<close> or \<^verbatim>\<open>fetch_ytdlp\<close> returns a rejection object, both
  caches are what they were before the call.
\<close>

theorem rejection_leaves_caches:
  "(fetch_youtube e st u = (Inr (Invalid m), st') \<longrightarrow>
      yt_cache st' = yt_cache st \<and> ytdlp_cache st' = ytdlp_cache st)
   \<and> (fetch_ytdlp e st u = (Inr (Invalid m), st') \<longrightarrow>
      yt_cache st' = yt_cache st \<and> ytdlp_cache st' = ytdlp_cache st)"
  using fetch_youtube_invalid fetch_ytdlp_invalid by blast

theorem rejection_leaves_caches_witness:
  "fetch_youtube mock_env init_state (url_of ''youtu.be'' ''/missing'')
     = (Inr (Invalid ''Url doesn't point to a video''), init_state\<lparr>calls := [VideosList ''missing'']\<rparr>)
   \<and> yt_cache (init_state\<lparr>calls := [VideosList ''missing'']\<rparr>) = yt_cache init_state
   \<and> ytdlp_cache (init_state\<lparr>calls := [VideosList ''missing'']\<rparr>) = ytdlp_cache init_state"
proof -
  have h: "fetch_youtube mock_env init_state (url_of ''youtu.be'' ''/missing'')
     = (Inr (Invalid ''Url doesn't point to a video''), init_state\<lparr>calls := [VideosList ''missing'']\<rparr>)"
    by (simp add: yt_missing init_caches)
  with rejection_leaves_caches
         [of mock_env init_state "url_of ''youtu.be'' ''/missing''" "''Url doesn't point to a video''"
             "init_state\<lparr>calls := [VideosList ''missing'']\<rparr>"]
  show ?thesis by blast
qed

text \<open>
  C2: two successive requests for the same identity are claimed to call the provider at
  most once, the second being served from the cache. The code departs from it in
  \<^verbatim>\<open>fetch_ytdlp\<close>: the cache is read under the normalized domain of the URL and the last
  segment of its path, but written under the \<^verbatim>\<open>webpage_url_domain\<close> and \<^verbatim>\<open>display_id\<close> of
  the provider's record. An \<^verbatim>\<open>x.com\<close> URL is fetched as a \<^verbatim>\<open>twitter.com\<close> URL and its
  record is stored under \<^verbatim>\<open>twitter.com\<close>, so it is never found under \<^verbatim>\<open>x.com\<close>: two
  successive requests for \<^verbatim>\<open>https://x.com/abc/status/123\<close> both succeed and both call the
  provider.
\<close>

theorem same_identity_fetched_twice:
  "update_item mock_env init_state
     [''https://x.com/abc/status/123'', ''https://x.com/abc/status/123'']
     = (Inr [Video tweet_record, Video tweet_record],
        after_tweet\<lparr>calls := [ExtractInfo ''https://twitter.com/abc/status/123'',
                              ExtractInfo ''https://twitter.com/abc/status/123'']\<rparr>)
   \<and> strip_subdomain (netloc (url_of ''x.com'' ''/abc/status/123'')) = Inr ''x.com''
   \<and> ytdlp_video_id (path (url_of ''x.com'' ''/abc/status/123'')) = Inr ''123''
   \<and> ytdlp_cache after_tweet ''x.com'' = Some Map.empty
   \<and> ytdlp_cache after_tweet ''twitter.com'' = Some [PStr ''123'' \<mapsto> tweet_record]"
proof -
  have c: "ytdlp_cache after_tweet ''x.com'' = Some Map.empty"
    "ytdlp_cache after_tweet ''twitter.com'' = Some [PStr ''123'' \<mapsto> tweet_record]"
    by (simp_all add: after_tweet_def init_caches)
  have k: "strip_subdomain (netloc (url_of ''x.com'' ''/abc/status/123'')) = Inr ''x.com''"
    "ytdlp_video_id (path (url_of ''x.com'' ''/abc/status/123'')) = Inr ''123''"
    by (simp_all add: url_of_sel strip_mock video_id_mock)
  have first: "fetch_ytdlp mock_env init_state (url_of ''x.com'' ''/abc/status/123'')
               = (Inr (Video tweet_record), after_tweet)"
    by (simp add: init_miss x_tweet_miss [OF init_caches(4)] init_caches after_tweet_def)
  have "fetch_ytdlp mock_env after_tweet (url_of ''x.com'' ''/abc/status/123'')
        = fetch_ytdlp_miss mock_env after_tweet (url_of ''x.com'' ''/abc/status/123'')"
    by (rule mock_to_miss [where dc = Map.empty])
       (simp_all add: strip_mock video_id_mock accepted_x_twitter c)
  then have second: "fetch_ytdlp mock_env after_tweet (url_of ''x.com'' ''/abc/status/123'')
        = (Inr (Video tweet_record),
           after_tweet\<lparr>calls := [ExtractInfo ''https://twitter.com/abc/status/123'',
                                 ExtractInfo ''https://twitter.com/abc/status/123'']\<rparr>)"
    by (simp add: x_tweet_miss [OF c(2)]) (simp add: after_tweet_def)
  have "update_item mock_env init_state
     [''https://x.com/abc/status/123'', ''https://x.com/abc/status/123'']
     = (Inr [Video tweet_record, Video tweet_record],
        after_tweet\<lparr>calls := [ExtractInfo ''https://twitter.com/abc/status/123'',
                              ExtractInfo ''https://twitter.com/abc/status/123'']\<rparr>)"
    by (simp add: update_item_def parse_https fetch_one_other first second)
  with k c show ?thesis by simp
qed

section \<open>The corrections for twitter and x, and the record\<close>



text \<open>
  C5, as amended: for an \<^verbatim>\<open>x.com\<close> URL whose id is cached neither under \<^verbatim>\<open>x.com\<close>
  nor under \<^verbatim>\<open>twitter.com\<close>, the corrections are those of the \<^verbatim>\<open>twitter.com\<close> URL with the
  same path (with the rewritten URL added), the provider is called with that
  \<^verbatim>\<open>twitter.com\<close> URL, and result and final state equal those of a request for that
  \<^verbatim>\<open>twitter.com\<close> URL. (The two domains are looked up in different cache partitions, so
  with a cached entry the results can differ.)
\<close>

theorem x_com_as_twitter:
  assumes "strip_subdomain (netloc u) = Inr ''x.com''"
      and "urlparse e (''https://twitter.com'' @ path u) = Inr t"
      and "strip_subdomain (netloc t) = Inr ''twitter.com''"
      and "path t = path u"
      and "geturl e t = ''https://twitter.com'' @ path u"
      and "ytdlp_video_id (path u) = Inr vid"
      and "ytdlp_cache st ''x.com'' = Some cx" and "cx (PStr vid) = None"
      and "ytdlp_cache st ''twitter.com'' = Some ct" and "ct (PStr vid) = None"
  shows "fetch_ytdlp e st u = fetch_ytdlp e st t
         \<and> preprocess e u =
             (case preprocess e t of
                Inl err \<Rightarrow> Inl err
              | Inr ch \<Rightarrow> Inr (AList.update ''url'' (CStr (''https://twitter.com'' @ path u)) ch))
         \<and> ((\<exists>ch. preprocess e t = Inr ch) \<longrightarrow>
              calls (snd (fetch_ytdlp e st u))
              = calls st @ [ExtractInfo (''https://twitter.com'' @ path u)])"
  using x_as_twitter [OF assms] by blast

theorem x_com_as_twitter_witness:
  "fetch_ytdlp mock_env init_state (url_of ''x.com'' ''/abc/status/123'')
     = (Inr (Video tweet_record), after_tweet)
   \<and> fetch_ytdlp mock_env init_state (url_of ''twitter.com'' ''/abc/status/123'')
     = (Inr (Video tweet_record), after_tweet)
   \<and> calls after_tweet = [ExtractInfo ''https://twitter.com/abc/status/123'']"
proof -
  have h: "strip_subdomain (netloc (url_of ''x.com'' ''/abc/status/123'')) = Inr ''x.com''"
    "urlparse mock_env (''https://twitter.com'' @ path (url_of ''x.com'' ''/abc/status/123''))
     = Inr (url_of ''twitter.com'' ''/abc/status/123'')"
    "strip_subdomain (netloc (url_of ''twitter.com'' ''/abc/status/123'')) = Inr ''twitter.com''"
    "path (url_of ''twitter.com'' ''/abc/status/123'') = path (url_of ''x.com'' ''/abc/status/123'')"
    "geturl mock_env (url_of ''twitter.com'' ''/abc/status/123'')
     = ''https://twitter.com'' @ path (url_of ''x.com'' ''/abc/status/123'')"
    "ytdlp_video_id (path (url_of ''x.com'' ''/abc/status/123'')) = Inr ''123''"
    by (simp_all add: url_of_sel strip_mock parse_https geturl_mock video_id_mock)
  have m: "Map.empty (PStr ''123'') = (None :: video_data option)" by simp
  from x_com_as_twitter [OF h init_caches(5) m init_caches(4) m]
  have "fetch_ytdlp mock_env init_state (url_of ''x.com'' ''/abc/status/123'')
        = fetch_ytdlp mock_env init_state (url_of ''twitter.com'' ''/abc/status/123'')"
    by blast
  then show ?thesis by (simp add: tweet_from_init) (simp add: after_tweet_def)
qed

theorem x_com_counterexample:
  "update_item mock_env init_state [''https://twitter.com/abc/status/123/video/2'']
     = (Inr [Video (tweet_record\<lparr>duration := PNone\<rparr>)], after_video2)
   \<and> urlparse mock_env (''https://twitter.com'' @ path (url_of ''x.com'' ''/abc/status/123''))
     = Inr (url_of ''twitter.com'' ''/abc/status/123'')
   \<and> fst (fetch_ytdlp mock_env after_video2 (url_of ''x.com'' ''/abc/status/123''))
     = Inr (Video tweet_record)
   \<and> fst (fetch_ytdlp mock_env after_video2 (url_of ''twitter.com'' ''/abc/status/123''))
     = Inr (Video (tweet_record\<lparr>duration := PNone\<rparr>))
   \<and> fst (fetch_ytdlp mock_env after_video2 (url_of ''x.com'' ''/abc/status/123''))
     \<noteq> fst (fetch_ytdlp mock_env after_video2 (url_of ''twitter.com'' ''/abc/status/123''))"
proof -
  have batch: "update_item mock_env init_state [''https://twitter.com/abc/status/123/video/2'']
     = (Inr [Video (tweet_record\<lparr>duration := PNone\<rparr>)], after_video2)"
    by (simp add: update_item_def parse_https fetch_one_other video2_from_init)
  have parse: "urlparse mock_env (''https://twitter.com'' @ path (url_of ''x.com'' ''/abc/status/123''))
     = Inr (url_of ''twitter.com'' ''/abc/status/123'')"
    by (simp add: url_of_sel parse_https)
  have "fetch_ytdlp mock_env after_video2 (url_of ''x.com'' ''/abc/status/123'')
        = fetch_ytdlp_miss mock_env after_video2 (url_of ''x.com'' ''/abc/status/123'')"
    by (rule mock_to_miss [where dc = Map.empty])
       (simp_all add: strip_mock video_id_mock accepted_x_twitter after_video2_caches)
  then have x: "fst (fetch_ytdlp mock_env after_video2 (url_of ''x.com'' ''/abc/status/123''))
     = Inr (Video tweet_record)"
    by (simp add: x_tweet_miss [OF after_video2_caches(1)])
  have "fetch_ytdlp mock_env after_video2 (url_of ''twitter.com'' ''/abc/status/123'')
        = (Inr (Video (tweet_record\<lparr>duration := PNone\<rparr>)), after_video2)"
    by (rule fetch_ytdlp_hit [where nl = "''twitter.com''" and vid = "''123''"
          and dc = "[PStr ''123'' \<mapsto> tweet_record\<lparr>duration := PNone\<rparr>]"])
       (simp_all add: url_of_sel strip_mock video_id_mock accepted_x_twitter after_video2_caches)
  then have tw: "fst (fetch_ytdlp mock_env after_video2 (url_of ''twitter.com'' ''/abc/status/123''))
     = Inr (Video (tweet_record\<lparr>duration := PNone\<rparr>))"
    by simp
  have "tweet_record \<noteq> tweet_record\<lparr>duration := PNone\<rparr>" by (simp add: tweet_record_def)
  with batch parse x tw show ?thesis by simp
qed

lemma half_not_whole: "\<not> is_whole (PFloat (61 / 2))"
proof -
  have "\<lfloor>61 / 2 :: rat\<rfloor> = 30" by (rule floor_unique) simp_all
  then show ?thesis by (simp add: is_whole_def)
qed

text \<open>
  C9: every successful result is claimed to carry an integer upload timestamp and a duration
  that is an integer or null. The code departs from it in \<^verbatim>\<open>fetch_ytdlp\<close>, which, unlike
  \<^verbatim>\<open>fetch_youtube\<close>, applies no \<^verbatim>\<open>int()\<close>: the upload timestamp is the float that
  \<^verbatim>\<open>timestamp()\<close> returns and the duration is the provider's value as it comes. A provider
  record with the duration 30.5 gives a result whose duration is 30.5, neither an integer
  nor null.
\<close>

theorem ytdlp_record_not_integer:
  "update_item mock_env init_state [''https://vimeo.com/12345'']
     = (Inr [Video clip_record], after_clip)
   \<and> clip ''duration'' = Some (PFloat (61 / 2))
   \<and> duration clip_record = PFloat (61 / 2)
   \<and> \<not> is_int (duration clip_record)
   \<and> \<not> is_whole (duration clip_record)
   \<and> duration clip_record \<noteq> PNone
   \<and> upload_date clip_record = PFloat 1714521600
   \<and> \<not> is_int (upload_date clip_record)"
proof -
  have "update_item mock_env init_state [''https://vimeo.com/12345'']
        = (Inr [Video clip_record], after_clip)"
    by (simp add: update_item_def parse_https fetch_one_other clip_from_init)
  moreover have "clip ''duration'' = Some (PFloat (61 / 2))" by (simp add: clip_def)
  moreover have "duration clip_record = PFloat (61 / 2)"
    "upload_date clip_record = PFloat 1714521600"
    by (simp_all add: clip_record_def)
  moreover from this have "\<not> is_int (duration clip_record)" "duration clip_record \<noteq> PNone"
    "\<not> is_int (upload_date clip_record)" "\<not> is_whole (duration clip_record)"
    by (simp_all add: is_int_def half_not_whole)
  ultimately show ?thesis by simp
qed

section \<open>Further properties of the dispatcher and the two adapters\<close>

text \<open>
  When the batch operation returns, its list has one result for each input URL.
\<close>

theorem batch_length:
  "update_item e st urls = (Inr rs, st') \<longrightarrow> length rs = length urls"
proof
  assume a: "update_item e st urls = (Inr rs, st')"
  then obtain us where us: "parse_all e urls = Inr us" "fetch_all e st us = (Inr rs, st')"
    by (auto simp: update_item_def split: sum.splits)
  from fetch_all_length [OF us(2)] parse_all_length [OF us(1)] show "length rs = length urls"
    by simp
qed

theorem batch_length_witness:
  "update_item mock_env init_state
     [''https://youtu.be/abc'', ''https://example.org/video/1'', ''https://vimeo.com/12345'']
   = (Inr [Video abc_record, Invalid ''Url not from an accepted domain'', Video clip_record],
      init_state\<lparr>calls := [VideosList ''abc'', ExtractInfo ''https://vimeo.com/12345''],
                 yt_cache := [''abc'' \<mapsto> abc_record],
                 ytdlp_cache := (ytdlp_cache init_state)
                    (''vimeo.com'' \<mapsto> [PStr ''12345'' \<mapsto> clip_record])\<rparr>)
   \<and> length [Video abc_record, Invalid ''Url not from an accepted domain'', Video clip_record]
     = length [''https://youtu.be/abc'', ''https://example.org/video/1'', ''https://vimeo.com/12345'']"
  using batch_of_three
    batch_length [of mock_env init_state
      "[''https://youtu.be/abc'', ''https://example.org/video/1'', ''https://vimeo.com/12345'']"
      "[Video abc_record, Invalid ''Url not from an accepted domain'', Video clip_record]"
      "init_state\<lparr>calls := [VideosList ''abc'', ExtractInfo ''https://vimeo.com/12345''],
                 yt_cache := [''abc'' \<mapsto> abc_record],
                 ytdlp_cache := (ytdlp_cache init_state)
                    (''vimeo.com'' \<mapsto> [PStr ''12345'' \<mapsto> clip_record])\<rparr>"]
  by blast

text \<open>
  When a request returns a normalized record, a second request for the same identity returns
  that record from the cache and leaves the state, with its log of provider calls, as it is,
  so that the two requests call the provider at most once. For \<^verbatim>\<open>fetch_youtube\<close> the
  identity is the extracted video id. For \<^verbatim>\<open>fetch_ytdlp\<close> it is the normalized domain with
  the last path segment, and the statement holds when the provider's record names that same
  domain and id.
\<close>

theorem cache_second_request:
  "(fetch_youtube e st u = (Inr (Video r), st1) \<and> extract_video_id e u' = extract_video_id e u \<longrightarrow>
      fetch_youtube e st1 u' = (Inr (Video r), st1) \<and> length (calls st1) \<le> length (calls st) + 1)
   \<and> (fetch_ytdlp e st u = (Inr (Video r), st1)
       \<and> strip_subdomain (netloc u) = Inr nl \<and> ytdlp_video_id (path u) = Inr vid
       \<and> (\<forall>resp. ytdlp_response e u = Inr resp \<longrightarrow>
              resp ''webpage_url_domain'' = Some (PStr nl) \<and> resp ''display_id'' = Some (PStr vid))
       \<and> strip_subdomain (netloc u') = Inr nl \<and> ytdlp_video_id (path u') = Inr vid \<longrightarrow>
      fetch_ytdlp e st1 u' = (Inr (Video r), st1) \<and> length (calls st1) \<le> length (calls st) + 1)"
  using yt_second_request [of e st u r st1 u'] ytdlp_second_request [of e st u r st1 nl vid u']
  by blast

theorem cache_second_request_witness:
  "fetch_youtube mock_env init_state (url_of ''youtu.be'' ''/abc'')
     = (Inr (Video abc_record),
        init_state\<lparr>calls := [VideosList ''abc''], yt_cache := [''abc'' \<mapsto> abc_record]\<rparr>)
   \<and> fetch_youtube mock_env
         (init_state\<lparr>calls := [VideosList ''abc''], yt_cache := [''abc'' \<mapsto> abc_record]\<rparr>)
         (url_of ''www.youtube.com'' ''/live/abc'')
     = (Inr (Video abc_record),
        init_state\<lparr>calls := [VideosList ''abc''], yt_cache := [''abc'' \<mapsto> abc_record]\<rparr>)
   \<and> fetch_ytdlp mock_env init_state (url_of ''vimeo.com'' ''/12345'')
     = (Inr (Video clip_record), after_clip)
   \<and> fetch_ytdlp mock_env after_clip (url_of ''www.vimeo.com'' ''/12345/'')
     = (Inr (Video clip_record), after_clip)
   \<and> calls after_clip = [ExtractInfo ''https://vimeo.com/12345'']"
proof -
  have first: "fetch_youtube mock_env init_state (url_of ''youtu.be'' ''/abc'')
     = (Inr (Video abc_record),
        init_state\<lparr>calls := [VideosList ''abc''], yt_cache := [''abc'' \<mapsto> abc_record]\<rparr>)"
    by (simp add: yt_abc_miss init_caches)
  have same: "extract_video_id mock_env (url_of ''www.youtube.com'' ''/live/abc'')
              = extract_video_id mock_env (url_of ''youtu.be'' ''/abc'')"
    by (simp add: extract_abc) (simp add: extract_video_id_def mock_eval re_match_id_def id_char_def)
  from first same
    cache_second_request
      [of mock_env init_state "url_of ''youtu.be'' ''/abc''" abc_record
          "init_state\<lparr>calls := [VideosList ''abc''], yt_cache := [''abc'' \<mapsto> abc_record]\<rparr>"
          "url_of ''www.youtube.com'' ''/live/abc''"]
  have yt: "fetch_youtube mock_env
         (init_state\<lparr>calls := [VideosList ''abc''], yt_cache := [''abc'' \<mapsto> abc_record]\<rparr>)
         (url_of ''www.youtube.com'' ''/live/abc'')
     = (Inr (Video abc_record),
        init_state\<lparr>calls := [VideosList ''abc''], yt_cache := [''abc'' \<mapsto> abc_record]\<rparr>)"
    by blast
  have key: "strip_subdomain (netloc (url_of ''vimeo.com'' ''/12345'')) = Inr ''vimeo.com''"
    "ytdlp_video_id (path (url_of ''vimeo.com'' ''/12345'')) = Inr ''12345''"
    by (simp_all add: url_of_sel strip_mock video_id_mock)
  have prov: "\<forall>resp. ytdlp_response mock_env (url_of ''vimeo.com'' ''/12345'') = Inr resp \<longrightarrow>
      resp ''webpage_url_domain'' = Some (PStr ''vimeo.com'')
      \<and> resp ''display_id'' = Some (PStr ''12345'')"
    by (simp add: vimeo_response clip_keys)
  from clip_from_init key prov vimeo_same_identity
    cache_second_request
      [of mock_env init_state "url_of ''vimeo.com'' ''/12345''" clip_record after_clip
          "url_of ''www.vimeo.com'' ''/12345/''" "''vimeo.com''" "''12345''"]
  have v: "fetch_ytdlp mock_env after_clip (url_of ''www.vimeo.com'' ''/12345/'')
     = (Inr (Video clip_record), after_clip)"
    by blast
  have "calls after_clip = [ExtractInfo ''https://vimeo.com/12345'']" by (simp add: after_clip_def)
  with first yt clip_from_init v show ?thesis by simp
qed

text \<open>
  With the cache holding only such records, as it does at start, a result of
  \<^verbatim>\<open>fetch_youtube\<close> has a string title and uploader and an integer upload timestamp and
  duration, and the cache still holds only such records.
\<close>

theorem youtube_record_types:
  "(yt_cache_typed st \<and> fetch_youtube e st u = (Inr (Video r), st') \<longrightarrow>
      yt_record r \<and> yt_cache_typed st')
   \<and> yt_cache_typed init_state"
  using yt_typed init_typed by blast

theorem youtube_record_types_witness:
  "yt_cache_typed init_state
   \<and> fetch_youtube mock_env init_state (url_of ''youtu.be'' ''/abc'')
     = (Inr (Video abc_record),
        init_state\<lparr>calls := [VideosList ''abc''], yt_cache := [''abc'' \<mapsto> abc_record]\<rparr>)
   \<and> yt_record abc_record
   \<and> yt_cache_typed
       (init_state\<lparr>calls := [VideosList ''abc''], yt_cache := [''abc'' \<mapsto> abc_record]\<rparr>)"
proof -
  have yt: "fetch_youtube mock_env init_state (url_of ''youtu.be'' ''/abc'')
     = (Inr (Video abc_record),
        init_state\<lparr>calls := [VideosList ''abc''], yt_cache := [''abc'' \<mapsto> abc_record]\<rparr>)"
    by (simp add: yt_abc_miss init_caches)
  with youtube_record_types
         [of init_state mock_env "url_of ''youtu.be'' ''/abc''" abc_record
             "init_state\<lparr>calls := [VideosList ''abc''], yt_cache := [''abc'' \<mapsto> abc_record]\<rparr>"]
  show ?thesis by blast
qed

end
